theory Spec2Isabelle
  imports Complex_Main "HOL-Library.Multiset"
begin

section \<open>Data model\<close>

text \<open>
  The backend keeps three collections of documents (users, incomes, expenses) in a
  document database and serves them through route handlers. Each handler is embedded as
  a function from the collection it touches and the parts of the request it reads to the
  collection afterwards and the response it sends. The database calls are embedded as
  list operations that succeed once the query is well-formed, so that the \<open>catch\<close>
  of a handler is reached by what the handler itself throws, by the cast of the id in
  the route, by the validation of a save and by the signing of a token. What the
  environment chooses (the fresh ObjectId of a new document, the clock reading, the
  salt drawn by the password hash, the signing secret) is an explicit argument.
\<close>

type_synonym object_id = nat
type_synonym time = nat

text \<open>
  A request field as the schema layer sees it: \<open>Undefined\<close> is a field that is
  absent (or null, or the empty text where a number is expected, which is cast to null),
  \<open>Uncastable\<close> a value that cannot be cast to the schema type, \<open>Value v\<close> a
  value that casts to \<open>v\<close>. Numbers are reals: the handlers store and compare them
  and never compute with them.
\<close>

datatype 'a field = Undefined | Uncastable | Value 'a

datatype schema_path = Top string | InItem nat string

datatype failure = Required | CastFailed

datatype error =
    SyntaxError
  | TypeError
  | CastError
  | ValidationError "(schema_path \<times> failure) list"
  | DuplicateKey
  | SecretMissing

record attachment =
  path :: string
  filename :: string

record uploaded_file = attachment +
  originalname :: string

record document =
  doc_id :: object_id

text \<open>
  The password field of a user document holds the raw text between the construction of
  the document and its save, and a salted hash afterwards. A hash is written as the
  salt and the key it was computed from.
\<close>

datatype credential = Raw string | Hashed nat string

record user = document +
  username :: string
  password :: credential

text \<open>
  What an income and an expense share. Of the two timestamps that \<open>timestamps: true\<close>
  maintains, \<open>createdAt\<close> is kept; \<open>updatedAt\<close> plays no part in any handler.
\<close>

record owned = document +
  createdBy :: object_id
  createdAt :: time
  "notes" :: "string option"

text \<open>An element of the \<open>items\<close> array of an expense.\<close>

record item =
  description :: "string field"
  amount :: "real field"

text \<open>\<open>incomeSchema\<close>: amount (Number, required), slip, notes, createdBy, timestamps.\<close>

record income = owned +
  amount :: "real field"
  slip :: "attachment option"

text \<open>
  \<open>expenseSchema\<close>: items (each with description: String, required and amount:
  Number, required), totalAmount (Number, required), images, notes, createdBy,
  timestamps.
\<close>

record expense = owned +
  items :: "item list"
  totalAmount :: "real field"
  images :: "attachment list"

record token =
  userId :: object_id
  issued_at :: time
  expires_at :: time
  signed_with :: string

datatype body =
    Message string
  | ErrorMessage error
  | TokenBody token
  | IncomeBody income
  | IncomeList "income list"
  | ExpenseBody expense
  | ExpenseList "expense list"

datatype response = Response (status: nat) (body: body)

section \<open>The persistence layer\<close>

text \<open>
  The id in the route (\<open>req.params.id\<close>) is a text. A query that filters on
  \<open>_id\<close> casts it to an ObjectId and throws a cast error when the text is not one.
\<close>

datatype path_id = NotObjectId | ObjectId object_id

definition castObjectId :: "path_id \<Rightarrow> error + object_id" where
  "castObjectId p = (case p of NotObjectId \<Rightarrow> Inl CastError | ObjectId i \<Rightarrow> Inr i)"

definition findOne :: "('a \<Rightarrow> bool) \<Rightarrow> 'a list \<Rightarrow> 'a option" where
  "findOne P xs = List.find P xs"

definition find_docs :: "('a \<Rightarrow> bool) \<Rightarrow> 'a list \<Rightarrow> 'a list" where
  "find_docs P xs = filter P xs"

text \<open>
  \<open>.sort({ createdAt: -1 })\<close>: newest first. The database does not say in which
  order it returns documents of equal \<open>createdAt\<close>; the sort here keeps them in the
  order of the collection.
\<close>

definition sort_createdAt_desc :: "'a owned_scheme list \<Rightarrow> 'a owned_scheme list" where
  "sort_createdAt_desc xs = sort_key (\<lambda>d. - int (createdAt d)) xs"

fun findOneAndDelete :: "('a \<Rightarrow> bool) \<Rightarrow> 'a list \<Rightarrow> 'a option \<times> 'a list" where
  "findOneAndDelete P [] = (None, [])"
| "findOneAndDelete P (x # xs) =
     (if P x then (Some x, xs)
      else (case findOneAndDelete P xs of (r, ys) \<Rightarrow> (r, x # ys)))"

text \<open>Saving a document that was loaded from the collection writes it back under its id.\<close>

fun replace_by_id :: "'a document_scheme \<Rightarrow> 'a document_scheme list \<Rightarrow> 'a document_scheme list" where
  "replace_by_id d [] = []"
| "replace_by_id d (x # xs) =
     (if doc_id x = doc_id d then d # xs else x # replace_by_id d xs)"

definition save_new ::
  "('a \<Rightarrow> (schema_path \<times> failure) list) \<Rightarrow> 'a \<Rightarrow> 'a list \<Rightarrow> error + 'a list" where
  "save_new validate d xs =
     (case validate d of
        [] \<Rightarrow> Inr (xs @ [d])
      | e # es \<Rightarrow> Inl (ValidationError (e # es)))"

definition save_existing ::
  "('a document_scheme \<Rightarrow> (schema_path \<times> failure) list) \<Rightarrow> 'a document_scheme \<Rightarrow>
     'a document_scheme list \<Rightarrow> error + 'a document_scheme list" where
  "save_existing validate d xs =
     (case validate d of
        [] \<Rightarrow> Inr (replace_by_id d xs)
      | e # es \<Rightarrow> Inl (ValidationError (e # es)))"

subsection \<open>Schema validation\<close>

text \<open>
  A save validates the document against its schema and throws a validation error that
  lists the failing paths. A required path fails when its value is absent; a Number path
  fails when its value cannot be cast to a number.
\<close>

definition check_number :: "schema_path \<Rightarrow> real field \<Rightarrow> (schema_path \<times> failure) list" where
  "check_number p f =
     (case f of Undefined \<Rightarrow> [(p, Required)] | Uncastable \<Rightarrow> [(p, CastFailed)] | Value v \<Rightarrow> [])"

text \<open>A required String rejects the empty text as well.\<close>

definition check_string :: "schema_path \<Rightarrow> string field \<Rightarrow> (schema_path \<times> failure) list" where
  "check_string p f =
     (case f of
        Undefined \<Rightarrow> [(p, Required)]
      | Uncastable \<Rightarrow> [(p, CastFailed)]
      | Value s \<Rightarrow> if s = [] then [(p, Required)] else [])"

text \<open>
  \<open>incomeSchema\<close>: \<open>amount\<close> is a required Number. (\<open>createdBy\<close>, required as
  well in both schemas, is always set by the handlers.)
\<close>

definition validate_income :: "income \<Rightarrow> (schema_path \<times> failure) list" where
  "validate_income d = check_number (Top ''amount'') (income.amount d)"

text \<open>
  \<open>expenseSchema\<close>: every element of \<open>items\<close> has a required String
  \<open>description\<close> and a required Number \<open>amount\<close>, and \<open>totalAmount\<close> is a required
  Number. The \<open>items\<close> array itself carries no validator.
\<close>

definition validate_item :: "nat \<times> item \<Rightarrow> (schema_path \<times> failure) list" where
  "validate_item ki =
     check_string (InItem (fst ki) ''description'') (description (snd ki)) @
     check_number (InItem (fst ki) ''amount'') (item.amount (snd ki))"

definition validate_expense :: "expense \<Rightarrow> (schema_path \<times> failure) list" where
  "validate_expense d =
     concat (map validate_item (enumerate 0 (items d))) @
     check_number (Top ''totalAmount'') (totalAmount d)"

subsection \<open>Password hashing\<close>

text \<open>
  The hashing library. Its key schedule reads 72 bytes: the bytes of the password
  followed by a zero byte, repeated as often as needed. Two passwords with the same key
  have the same hash under the same salt, so a password longer than 72 bytes counts by
  its first 72 bytes only.
\<close>

definition bcrypt_key :: "string \<Rightarrow> string" where
  "bcrypt_key pw = take 72 (concat (replicate 72 (pw @ [CHR 0x00])))"

text \<open>
  Beyond that the hash is ideal: a password matches a hash exactly when it has the key
  the hash was computed from, and nothing matches a stored value that is not a hash.
\<close>

definition bcrypt_hash :: "nat \<Rightarrow> string \<Rightarrow> credential" where
  "bcrypt_hash salt pw = Hashed salt (bcrypt_key pw)"

fun bcrypt_compare :: "string \<Rightarrow> credential \<Rightarrow> bool" where
  "bcrypt_compare pw (Hashed salt key) = (bcrypt_key pw = key)"
| "bcrypt_compare pw (Raw r) = False"

text \<open>
  The hash is one-way. What can be read off a stored credential without guessing
  passwords is the raw text when the credential is stored raw, and no password text when
  it is a hash.
\<close>

fun disclosed :: "credential \<Rightarrow> string option" where
  "disclosed (Raw r) = Some r"
| "disclosed (Hashed salt key) = None"

subsection \<open>The user model\<close>

text \<open>
  Modelled from the spec: the User model (\<open>models/User.js\<close>) is not among the
  sources; the registration handler says of the password it passes that it ``will be
  hashed by the User model middleware''. By the spec a save stores a one-way salted hash
  of a newly set password, never the raw value.
\<close>

definition pre_save :: "nat \<Rightarrow> user \<Rightarrow> user" where
  "pre_save salt u =
     (case password u of
        Raw pw \<Rightarrow> u\<lparr>password := bcrypt_hash salt pw\<rparr>
      | Hashed s p \<Rightarrow> u)"

text \<open>
  Modelled from the spec: the save of a new user, from the missing User model. By the spec
  a user has an id, a unique username and a password hash; nothing else is required of
  a new user.
\<close>

definition user_save_new :: "nat \<Rightarrow> user \<Rightarrow> user list \<Rightarrow> error + user list" where
  "user_save_new salt u users =
     (if findOne (\<lambda>x. username x = username u) users \<noteq> None then Inl DuplicateKey
      else Inr (users @ [pre_save salt u]))"

text \<open>
  Modelled from the spec: the save of a user that was loaded from the collection, from the
  missing User model; it writes the user back under its id, the password hashed.
\<close>

definition user_save_existing :: "nat \<Rightarrow> user \<Rightarrow> user list \<Rightarrow> user list" where
  "user_save_existing salt u users = replace_by_id (pre_save salt u) users"

section \<open>Authentication routes\<close>

text \<open>
  \<open>jwt.sign({ userId }, process.env.JWT_SECRET, { expiresIn: '1d' })\<close>, the clock in
  seconds. The secret is \<open>None\<close> when the environment variable is not set; the
  signing throws when the secret is not set or is empty.
\<close>

definition jwt_sign :: "object_id \<Rightarrow> string option \<Rightarrow> time \<Rightarrow> error + token" where
  "jwt_sign uid secret now =
     (case secret of
        None \<Rightarrow> Inl SecretMissing
      | Some k \<Rightarrow>
          if k = [] then Inl SecretMissing
          else Inr \<lparr>userId = uid, issued_at = now, expires_at = now + 86400,
                    signed_with = k\<rparr>)"

text \<open>\<open>POST /api/auth/create-first-user\<close>\<close>

definition post_create_first_user ::
  "object_id \<Rightarrow> nat \<Rightarrow> user list \<Rightarrow> string \<Rightarrow> string \<Rightarrow> user list \<times> response" where
  "post_create_first_user new_id salt users uname pw =
     (case findOne (\<lambda>u. username u = uname) users of
        Some existingUser \<Rightarrow> (users, Response 400 (Message ''User already exists''))
      | None \<Rightarrow>
          (let user = \<lparr>doc_id = new_id, username = uname, password = Raw pw\<rparr>
           in case user_save_new salt user users of
                Inl e \<Rightarrow> (users, Response 500 (ErrorMessage e))
              | Inr users' \<Rightarrow> (users', Response 201 (Message ''User created successfully''))))"

text \<open>\<open>POST /api/auth/login\<close>\<close>

definition post_login ::
  "string option \<Rightarrow> time \<Rightarrow> user list \<Rightarrow> string \<Rightarrow> string \<Rightarrow> response" where
  "post_login JWT_SECRET now users uname pw =
     (case findOne (\<lambda>u. username u = uname) users of
        None \<Rightarrow> Response 401 (Message ''Invalid credentials'')
      | Some user \<Rightarrow>
          if \<not> bcrypt_compare pw (password user)
          then Response 401 (Message ''Invalid credentials'')
          else (case jwt_sign (doc_id user) JWT_SECRET now of
                  Inl e \<Rightarrow> Response 500 (ErrorMessage e)
                | Inr token \<Rightarrow> Response 200 (TokenBody token)))"

text \<open>
  \<open>POST /api/auth/change-password\<close>. The handler reads \<open>req.user.userId\<close>;
  \<open>req_user\<close> is \<open>None\<close> when no guard has put a resolved identity on the request,
  and the read then throws inside the \<open>try\<close>.
\<close>

definition post_change_password ::
  "nat \<Rightarrow> user list \<Rightarrow> object_id option \<Rightarrow> string \<Rightarrow> string \<Rightarrow> user list \<times> response" where
  "post_change_password salt users req_user currentPassword newPassword =
     (case req_user of
        None \<Rightarrow> (users, Response 500 (ErrorMessage TypeError))
      | Some uid \<Rightarrow>
          (case findOne (\<lambda>u. doc_id u = uid) users of
             None \<Rightarrow> (users, Response 404 (Message ''User not found''))
           | Some user \<Rightarrow>
               if \<not> bcrypt_compare currentPassword (password user)
               then (users, Response 401 (Message ''Current password is incorrect''))
               else (user_save_existing salt (user\<lparr>password := Raw newPassword\<rparr>) users,
                     Response 200 (Message ''Password changed successfully''))))"

text \<open>
  The route as the application serves it. The router registers the handler with nothing
  before it (\<open>router.post('/change-password', async (req, res) => ...)\<close>, where the
  income and expense routers pass \<open>auth\<close> first), and the application mounts the
  router behind \<open>cors\<close> and the JSON body parser only; neither sets \<open>req.user\<close>.
  The bearer token that the request presents (\<open>authorization\<close>) is read by nothing
  on the way.
\<close>

definition change_password_route ::
  "nat \<Rightarrow> user list \<Rightarrow> token option \<Rightarrow> string \<Rightarrow> string \<Rightarrow> user list \<times> response" where
  "change_password_route salt users authorization currentPassword newPassword =
     post_change_password salt users None currentPassword newPassword"

section \<open>Income routes\<close>

text \<open>
  The income and expense routes run behind the access guard; \<open>uid\<close> is the identity
  it resolved (\<open>req.user.userId\<close>, the id of a user, as login put it into the token),
  \<open>params_id\<close> the id in the route (\<open>req.params.id\<close>).
\<close>

definition stored_file :: "uploaded_file \<Rightarrow> attachment" where
  "stored_file file = \<lparr>path = path file, filename = filename file\<rparr>"

text \<open>\<open>POST /api/incomes\<close>\<close>

definition post_incomes ::
  "object_id \<Rightarrow> time \<Rightarrow> income list \<Rightarrow> object_id \<Rightarrow> real field \<Rightarrow> string option \<Rightarrow>
     uploaded_file option \<Rightarrow> income list \<times> response" where
  "post_incomes new_id now incomes uid body_amount body_notes req_file =
     (let income = \<lparr>doc_id = new_id, createdBy = uid, createdAt = now, notes = body_notes,
                    amount = body_amount,
                    slip = (case req_file of Some file \<Rightarrow> Some (stored_file file) | None \<Rightarrow> None)\<rparr>
      in case save_new validate_income income incomes of
           Inl e \<Rightarrow> (incomes, Response 400 (ErrorMessage e))
         | Inr incomes' \<Rightarrow> (incomes', Response 201 (IncomeBody income)))"

text \<open>\<open>GET /api/incomes\<close>\<close>

definition get_incomes :: "income list \<Rightarrow> object_id \<Rightarrow> response" where
  "get_incomes incomes uid =
     Response 200 (IncomeList (sort_createdAt_desc (find_docs (\<lambda>d. createdBy d = uid) incomes)))"

text \<open>\<open>GET /api/incomes/:id\<close>\<close>

definition get_income_by_id :: "income list \<Rightarrow> object_id \<Rightarrow> path_id \<Rightarrow> response" where
  "get_income_by_id incomes uid params_id =
     (case castObjectId params_id of
        Inl e \<Rightarrow> Response 500 (ErrorMessage e)
      | Inr i \<Rightarrow>
          (case findOne (\<lambda>d. doc_id d = i \<and> createdBy d = uid) incomes of
             None \<Rightarrow> Response 404 (Message ''Income record not found'')
           | Some income \<Rightarrow> Response 200 (IncomeBody income)))"

text \<open>\<open>PUT /api/incomes/:id\<close>\<close>

definition put_income ::
  "income list \<Rightarrow> object_id \<Rightarrow> path_id \<Rightarrow> real field \<Rightarrow> string option \<Rightarrow>
     uploaded_file option \<Rightarrow> income list \<times> response" where
  "put_income incomes uid params_id body_amount body_notes req_file =
     (case castObjectId params_id of
        Inl e \<Rightarrow> (incomes, Response 400 (ErrorMessage e))
      | Inr i \<Rightarrow>
          (case findOne (\<lambda>d. doc_id d = i \<and> createdBy d = uid) incomes of
             None \<Rightarrow> (incomes, Response 404 (Message ''Income record not found''))
           | Some found \<Rightarrow>
               (let income = found\<lparr>amount := body_amount, notes := body_notes\<rparr>;
                    income = (case req_file of
                                Some file \<Rightarrow> income\<lparr>slip := Some (stored_file file)\<rparr>
                              | None \<Rightarrow> income)
                in case save_existing validate_income income incomes of
                     Inl e \<Rightarrow> (incomes, Response 400 (ErrorMessage e))
                   | Inr incomes' \<Rightarrow> (incomes', Response 200 (IncomeBody income)))))"

text \<open>\<open>DELETE /api/incomes/:id\<close>\<close>

definition delete_income :: "income list \<Rightarrow> object_id \<Rightarrow> path_id \<Rightarrow> income list \<times> response" where
  "delete_income incomes uid params_id =
     (case castObjectId params_id of
        Inl e \<Rightarrow> (incomes, Response 500 (ErrorMessage e))
      | Inr i \<Rightarrow>
          (case findOneAndDelete (\<lambda>d. doc_id d = i \<and> createdBy d = uid) incomes of
             (None, incomes') \<Rightarrow> (incomes, Response 404 (Message ''Income record not found''))
           | (Some income, incomes') \<Rightarrow>
               (incomes', Response 200 (Message ''Income record deleted successfully''))))"

section \<open>Expense routes\<close>

text \<open>
  The \<open>items\<close> field of the multipart body, by what \<open>JSON.parse\<close> makes of it: the
  field is absent (the text \<open>undefined\<close> is not JSON), its text is not JSON, or it
  parses to an array of items, each with the description and the amount it carries.
  Texts that parse to something other than an array of objects are not covered.
\<close>

datatype items_field = ItemsUndefined | ItemsNotJson | ItemsJson "item list"

definition JSON_parse :: "items_field \<Rightarrow> error + item list" where
  "JSON_parse f =
     (case f of
        ItemsUndefined \<Rightarrow> Inl SyntaxError
      | ItemsNotJson \<Rightarrow> Inl SyntaxError
      | ItemsJson its \<Rightarrow> Inr its)"

text \<open>\<open>POST /api/expenses\<close>\<close>

definition post_expenses ::
  "object_id \<Rightarrow> time \<Rightarrow> expense list \<Rightarrow> object_id \<Rightarrow> items_field \<Rightarrow> real field \<Rightarrow>
     string option \<Rightarrow> uploaded_file list option \<Rightarrow> expense list \<times> response" where
  "post_expenses new_id now expenses uid body_items body_totalAmount body_notes req_files =
     (case JSON_parse body_items of
        Inl e \<Rightarrow> (expenses, Response 400 (ErrorMessage e))
      | Inr its \<Rightarrow>
          (let expense = \<lparr>doc_id = new_id, createdBy = uid, createdAt = now, notes = body_notes,
                          items = its, totalAmount = body_totalAmount,
                          images = (case req_files of
                                      Some files \<Rightarrow> map stored_file files
                                    | None \<Rightarrow> [])\<rparr>
           in case save_new validate_expense expense expenses of
                Inl e \<Rightarrow> (expenses, Response 400 (ErrorMessage e))
              | Inr expenses' \<Rightarrow> (expenses', Response 201 (ExpenseBody expense))))"

text \<open>\<open>GET /api/expenses\<close>\<close>

definition get_expenses :: "expense list \<Rightarrow> object_id \<Rightarrow> response" where
  "get_expenses expenses uid =
     Response 200 (ExpenseList (sort_createdAt_desc (find_docs (\<lambda>d. createdBy d = uid) expenses)))"

text \<open>\<open>GET /api/expenses/:id\<close>\<close>

definition get_expense_by_id :: "expense list \<Rightarrow> object_id \<Rightarrow> path_id \<Rightarrow> response" where
  "get_expense_by_id expenses uid params_id =
     (case castObjectId params_id of
        Inl e \<Rightarrow> Response 500 (ErrorMessage e)
      | Inr i \<Rightarrow>
          (case findOne (\<lambda>d. doc_id d = i \<and> createdBy d = uid) expenses of
             None \<Rightarrow> Response 404 (Message ''Expense not found'')
           | Some expense \<Rightarrow> Response 200 (ExpenseBody expense)))"

text \<open>\<open>PUT /api/expenses/:id\<close>\<close>

definition put_expense ::
  "expense list \<Rightarrow> object_id \<Rightarrow> path_id \<Rightarrow> items_field \<Rightarrow> real field \<Rightarrow> string option \<Rightarrow>
     uploaded_file list option \<Rightarrow> expense list \<times> response" where
  "put_expense expenses uid params_id body_items body_totalAmount body_notes req_files =
     (case castObjectId params_id of
        Inl e \<Rightarrow> (expenses, Response 400 (ErrorMessage e))
      | Inr i \<Rightarrow>
          (case findOne (\<lambda>d. doc_id d = i \<and> createdBy d = uid) expenses of
             None \<Rightarrow> (expenses, Response 404 (Message ''Expense not found''))
           | Some found \<Rightarrow>
               (case JSON_parse body_items of
                  Inl e \<Rightarrow> (expenses, Response 400 (ErrorMessage e))
                | Inr its \<Rightarrow>
                    (let expense = found\<lparr>items := its, totalAmount := body_totalAmount,
                                         notes := body_notes\<rparr>;
                         expense = (case req_files of
                                      Some files \<Rightarrow>
                                        if length files > 0
                                        then expense\<lparr>images := images expense @
                                                                 map stored_file files\<rparr>
                                        else expense
                                    | None \<Rightarrow> expense)
                     in case save_existing validate_expense expense expenses of
                          Inl e \<Rightarrow> (expenses, Response 400 (ErrorMessage e))
                        | Inr expenses' \<Rightarrow> (expenses', Response 200 (ExpenseBody expense))))))"

text \<open>\<open>DELETE /api/expenses/:id\<close>\<close>

definition delete_expense :: "expense list \<Rightarrow> object_id \<Rightarrow> path_id \<Rightarrow> expense list \<times> response" where
  "delete_expense expenses uid params_id =
     (case castObjectId params_id of
        Inl e \<Rightarrow> (expenses, Response 500 (ErrorMessage e))
      | Inr i \<Rightarrow>
          (case findOneAndDelete (\<lambda>d. doc_id d = i \<and> createdBy d = uid) expenses of
             (None, expenses') \<Rightarrow> (expenses, Response 404 (Message ''Expense not found''))
           | (Some expense, expenses') \<Rightarrow>
               (expenses', Response 200 (Message ''Expense deleted successfully''))))"

section \<open>Sample data\<close>

text \<open>Two users, and one income and one expense that belong to the second of them.\<close>

abbreviation sample_users :: "user list" where
  "sample_users \<equiv>
     [\<lparr>doc_id = 1, username = ''alice'', password = bcrypt_hash 7 ''secret''\<rparr>,
      \<lparr>doc_id = 2, username = ''bob'', password = bcrypt_hash 8 ''hunter2''\<rparr>]"

text \<open>The token that a login of the second user at time 100 yields under the secret \<open>k\<close>.\<close>

abbreviation sample_token :: token where
  "sample_token \<equiv> \<lparr>userId = 2, issued_at = 100, expires_at = 86500, signed_with = ''k''\<rparr>"

abbreviation sample_income :: income where
  "sample_income \<equiv>
     \<lparr>doc_id = 10, createdBy = 2, createdAt = 5, notes = Some ''salary'', amount = Value 100,
      slip = Some \<lparr>path = ''uploads/5-slip.png'', filename = ''5-slip.png''\<rparr>\<rparr>"

abbreviation sample_expense :: expense where
  "sample_expense \<equiv>
     \<lparr>doc_id = 20, createdBy = 2, createdAt = 6, notes = None,
      items = [\<lparr>description = Value ''coffee'', item.amount = Value 3.5\<rparr>],
      totalAmount = Value 3.5,
      images = [\<lparr>path = ''uploads/6-bill.png'', filename = ''6-bill.png''\<rparr>]\<rparr>"

abbreviation sample_file :: uploaded_file where
  "sample_file \<equiv>
     \<lparr>path = ''uploads/9-new.png'', filename = ''9-new.png'', originalname = ''new.png''\<rparr>"

text \<open>A valid income and a valid expense of user 1, as the create handlers build them.\<close>

abbreviation new_income :: "object_id \<Rightarrow> time \<Rightarrow> real \<Rightarrow> income" where
  "new_income k t a \<equiv>
     \<lparr>doc_id = k, createdBy = 1, createdAt = t, notes = None, amount = Value a, slip = None\<rparr>"

abbreviation new_expense :: "object_id \<Rightarrow> time \<Rightarrow> real \<Rightarrow> expense" where
  "new_expense k t a \<equiv>
     \<lparr>doc_id = k, createdBy = 1, createdAt = t, notes = None,
      items = [\<lparr>description = Value ''tea'', item.amount = Value a\<rparr>],
      totalAmount = Value a, images = []\<rparr>"

section \<open>Facts about the persistence layer\<close>

lemma findOne_None_iff: "findOne P xs = None \<longleftrightarrow> (\<forall>x\<in>set xs. \<not> P x)"
  by (auto simp: findOne_def find_None_iff)

lemma findOne_SomeD: "findOne P xs = Some x \<Longrightarrow> x \<in> set xs \<and> P x"
  by (auto simp: findOne_def find_Some_iff)

lemma findOne_Some_set: "findOne P xs = Some x \<Longrightarrow> x \<in> set xs"
  by (auto simp: findOne_def find_Some_iff)

lemma findOne_append:
  "findOne P (xs @ ys) = (case findOne P xs of None \<Rightarrow> findOne P ys | Some x \<Rightarrow> Some x)"
  by (induction xs) (auto simp: findOne_def)

lemma findOne_username_None:
  "findOne (\<lambda>u. username u = uname) users = None \<longleftrightarrow> uname \<notin> username ` set users"
  by (auto simp: findOne_None_iff)

lemma findOne_owned_None:
  "(\<forall>d\<in>set xs. doc_id d = i \<longrightarrow> createdBy d \<noteq> uid) \<Longrightarrow>
   findOne (\<lambda>d. doc_id d = i \<and> createdBy d = uid) xs = None"
  by (auto simp: findOne_None_iff)

lemma findOneAndDelete_fst: "fst (findOneAndDelete P xs) = findOne P xs"
  by (induction xs) (auto simp: findOne_def split: prod.splits)

lemma findOneAndDelete_None: "findOne P xs = None \<Longrightarrow> findOneAndDelete P xs = (None, xs)"
  by (induction xs) (auto simp: findOne_def split: if_splits)

lemma findOneAndDelete_SomeD:
  "findOneAndDelete P xs = (Some d, ys) \<Longrightarrow> d \<in> set xs \<and> P d"
proof -
  assume "findOneAndDelete P xs = (Some d, ys)"
  then have "findOne P xs = Some d"
    using findOneAndDelete_fst [of P xs] by simp
  then show ?thesis by (rule findOne_SomeD)
qed

lemma findOne_replace_by_id:
  "findOne (\<lambda>x. doc_id x = doc_id d) xs = Some u \<Longrightarrow>
   findOne (\<lambda>x. doc_id x = doc_id d) (replace_by_id d xs) = Some d"
  by (induction xs) (auto simp: findOne_def split: if_splits)

text \<open>
  The database keeps ids unique within a collection, and usernames unique among users.
  Under that invariant a save writes back to the very document the lookup found.
\<close>

lemma findOne_username_replace_by_id:
  fixes d :: user
  assumes "findOne (\<lambda>x. doc_id x = doc_id d) xs = Some u"
    and "username d = username u"
    and "distinct (map username xs)"
  shows "findOne (\<lambda>x. username x = username u) (replace_by_id d xs) = Some d"
  using assms
proof (induction xs)
  case Nil
  then show ?case by (simp add: findOne_def)
next
  case (Cons x xs)
  show ?case
  proof (cases "doc_id x = doc_id d")
    case True
    with Cons.prems have "u = x" by (simp add: findOne_def)
    with True Cons.prems show ?thesis by (simp add: findOne_def)
  next
    case False
    with Cons.prems have found: "findOne (\<lambda>x. doc_id x = doc_id d) xs = Some u"
      by (simp add: findOne_def)
    then have "u \<in> set xs" by (rule findOne_Some_set)
    with Cons.prems have neq: "username x \<noteq> username u" by auto
    from Cons.IH [OF found] Cons.prems
    have "findOne (\<lambda>x. username x = username u) (replace_by_id d xs) = Some d"
      by simp
    with False neq show ?thesis by (simp add: findOne_def)
  qed
qed

lemma map_replace_by_id:
  assumes "distinct (map doc_id xs)" and "d \<in> set xs" and "doc_id d' = doc_id d" and "f d' = f d"
  shows "map f (replace_by_id d' xs) = map f xs"
  using assms
proof (induction xs)
  case Nil
  then show ?case by simp
next
  case (Cons x xs)
  show ?case
  proof (cases "doc_id x = doc_id d'")
    case True
    with Cons.prems have "x = d" by (auto simp: image_iff)
    with True Cons.prems show ?thesis by simp
  next
    case False
    with Cons.prems have "d \<in> set xs" by auto
    with Cons False show ?thesis by simp
  qed
qed

lemma findOne_owned_replace_by_id:
  assumes "distinct (map doc_id xs)"
    and "findOne (\<lambda>x. doc_id x = i \<and> createdBy x = uid) xs = Some d"
    and "doc_id d' = doc_id d" and "createdBy d' = createdBy d"
  shows "findOne (\<lambda>x. doc_id x = i \<and> createdBy x = uid) (replace_by_id d' xs) = Some d'"
  using assms
proof (induction xs)
  case Nil
  then show ?case by (simp add: findOne_def)
next
  case (Cons x xs)
  from Cons.prems have d: "d \<in> set (x # xs)" "doc_id d = i" "createdBy d = uid"
    by (auto dest: findOne_SomeD)
  show ?case
  proof (cases "doc_id x = doc_id d'")
    case True
    with Cons.prems d show ?thesis by (simp add: findOne_def)
  next
    case False
    with Cons.prems d have "findOne (\<lambda>x. doc_id x = i \<and> createdBy x = uid) xs = Some d"
      by (simp add: findOne_def)
    with Cons False d show ?thesis by (simp add: findOne_def)
  qed
qed

lemma castObjectId_ObjectId [simp]: "castObjectId (ObjectId i) = Inr i"
  by (simp add: castObjectId_def)

lemma castObjectId_NotObjectId [simp]: "castObjectId NotObjectId = Inl CastError"
  by (simp add: castObjectId_def)

section \<open>Facts about password hashing\<close>

lemma bcrypt_compare_hash: "bcrypt_compare pw (bcrypt_hash salt pw)"
  by (simp add: bcrypt_hash_def)

lemma bcrypt_compare_hash_iff:
  "bcrypt_compare q (bcrypt_hash salt pw) \<longleftrightarrow> bcrypt_key q = bcrypt_key pw"
  by (simp add: bcrypt_hash_def)

lemma bcrypt_key_unfold:
  "bcrypt_key pw = take 72 ((pw @ [CHR 0x00]) @ concat (replicate 71 (pw @ [CHR 0x00])))"
proof -
  have "(72::nat) = Suc 71" by simp
  then have "replicate 72 (pw @ [CHR 0x00]) = (pw @ [CHR 0x00]) # replicate 71 (pw @ [CHR 0x00])"
    by (metis replicate_Suc)
  then show ?thesis by (simp add: bcrypt_key_def)
qed

text \<open>Only the first 72 bytes of a long password count.\<close>

lemma bcrypt_key_long: "72 \<le> length pw \<Longrightarrow> bcrypt_key pw = take 72 pw"
  by (simp add: bcrypt_key_unfold)

lemma bcrypt_key_hd: "hd (bcrypt_key pw) = hd (pw @ [CHR 0x00])"
  by (cases pw) (simp_all add: bcrypt_key_unfold)

lemma bcrypt_mismatch_hd:
  "hd (q @ [CHR 0x00]) \<noteq> hd (pw @ [CHR 0x00]) \<Longrightarrow> \<not> bcrypt_compare q (bcrypt_hash salt pw)"
  using bcrypt_key_hd [of q] bcrypt_key_hd [of pw] by (auto simp: bcrypt_hash_def)

lemma disclosed_hash: "disclosed (bcrypt_hash salt pw) = None"
  by (simp add: bcrypt_hash_def)

section \<open>Facts about schema validation\<close>

lemma check_number_Nil: "check_number p f = [] \<longleftrightarrow> (\<exists>v. f = Value v)"
  by (cases f) (simp_all add: check_number_def)

lemma check_string_Nil: "check_string p f = [] \<longleftrightarrow> (\<exists>s. f = Value s \<and> s \<noteq> [])"
  by (cases f) (simp_all add: check_string_def)

lemma validate_item_Nil:
  "validate_item (k, it) = [] \<longleftrightarrow>
     (\<exists>s. description it = Value s \<and> s \<noteq> []) \<and> (\<exists>a. item.amount it = Value a)"
  by (simp add: validate_item_def check_number_Nil check_string_Nil)

lemma validate_items_Nil:
  "concat (map validate_item (enumerate n its)) = [] \<longleftrightarrow>
     (\<forall>it\<in>set its. (\<exists>s. description it = Value s \<and> s \<noteq> []) \<and> (\<exists>a. item.amount it = Value a))"
  by (induction its arbitrary: n) (simp_all add: validate_item_Nil)

lemma validate_expense_Nil:
  "validate_expense d = [] \<longleftrightarrow>
     (\<forall>it\<in>set (items d). (\<exists>s. description it = Value s \<and> s \<noteq> []) \<and>
                          (\<exists>a. item.amount it = Value a)) \<and>
     (\<exists>v. totalAmount d = Value v)"
  by (simp only: validate_expense_def append_is_Nil_conv validate_items_Nil check_number_Nil)

lemma validate_income_Nil: "validate_income d = [] \<longleftrightarrow> (\<exists>v. income.amount d = Value v)"
  by (simp add: validate_income_def check_number_Nil)

lemma save_new_valid: "validate d = [] \<Longrightarrow> save_new validate d xs = Inr (xs @ [d])"
  by (simp add: save_new_def)

lemma save_new_invalid:
  "validate d \<noteq> [] \<Longrightarrow> save_new validate d xs = Inl (ValidationError (validate d))"
  by (cases "validate d") (simp_all add: save_new_def)

lemma save_existing_valid:
  "validate d = [] \<Longrightarrow> save_existing validate d xs = Inr (replace_by_id d xs)"
  by (simp add: save_existing_def)

lemma save_existing_invalid:
  "validate d \<noteq> [] \<Longrightarrow> save_existing validate d xs = Inl (ValidationError (validate d))"
  by (cases "validate d") (simp_all add: save_existing_def)

section \<open>Facts about the update handlers\<close>

lemma put_income_valid:
  assumes "findOne (\<lambda>d. doc_id d = i \<and> createdBy d = uid) incomes = Some d"
    and "body_amount = Value a"
  shows "put_income incomes uid (ObjectId i) body_amount body_notes req_file
     = (replace_by_id
          (d\<lparr>amount := body_amount, notes := body_notes,
             slip := (case req_file of Some file \<Rightarrow> Some (stored_file file) | None \<Rightarrow> slip d)\<rparr>)
          incomes,
        Response 200 (IncomeBody
          (d\<lparr>amount := body_amount, notes := body_notes,
             slip := (case req_file of Some file \<Rightarrow> Some (stored_file file) | None \<Rightarrow> slip d)\<rparr>)))"
  using assms
  by (cases req_file) (simp_all add: put_income_def Let_def save_existing_valid validate_income_Nil)

lemma put_income_invalid:
  assumes "findOne (\<lambda>d. doc_id d = i \<and> createdBy d = uid) incomes = Some d"
    and "\<forall>a. body_amount \<noteq> Value a"
  shows "\<exists>e. put_income incomes uid (ObjectId i) body_amount body_notes req_file
     = (incomes, Response 400 (ErrorMessage e))"
  using assms
  by (cases req_file) (simp_all add: put_income_def Let_def save_existing_invalid validate_income_Nil)

lemma put_expense_valid:
  assumes "findOne (\<lambda>d. doc_id d = i \<and> createdBy d = uid) expenses = Some d"
    and "body_items = ItemsJson its" and "body_totalAmount = Value v"
    and "\<forall>it\<in>set its. (\<exists>s. description it = Value s \<and> s \<noteq> []) \<and> (\<exists>a. item.amount it = Value a)"
  shows "put_expense expenses uid (ObjectId i) body_items body_totalAmount body_notes req_files
     = (replace_by_id
          (d\<lparr>items := its, totalAmount := body_totalAmount, notes := body_notes,
             images := images d @
               (case req_files of Some files \<Rightarrow> map stored_file files | None \<Rightarrow> [])\<rparr>)
          expenses,
        Response 200 (ExpenseBody
          (d\<lparr>items := its, totalAmount := body_totalAmount, notes := body_notes,
             images := images d @
               (case req_files of Some files \<Rightarrow> map stored_file files | None \<Rightarrow> [])\<rparr>)))"
proof (cases req_files)
  case None
  with assms show ?thesis
    by (simp add: put_expense_def JSON_parse_def Let_def save_existing_valid validate_expense_Nil)
next
  case (Some files)
  with assms show ?thesis
    by (cases "files = []")
      (simp_all add: put_expense_def JSON_parse_def Let_def save_existing_valid validate_expense_Nil)
qed

lemma put_expense_invalid:
  assumes "findOne (\<lambda>d. doc_id d = i \<and> createdBy d = uid) expenses = Some d"
    and "\<not> (\<exists>its v. body_items = ItemsJson its \<and> body_totalAmount = Value v \<and>
       (\<forall>it\<in>set its. (\<exists>s. description it = Value s \<and> s \<noteq> []) \<and>
                      (\<exists>a. item.amount it = Value a)))"
  shows "\<exists>e. put_expense expenses uid (ObjectId i) body_items body_totalAmount body_notes req_files
     = (expenses, Response 400 (ErrorMessage e))"
proof (cases body_items)
  case ItemsUndefined
  with assms show ?thesis by (simp add: put_expense_def JSON_parse_def)
next
  case ItemsNotJson
  with assms show ?thesis by (simp add: put_expense_def JSON_parse_def)
next
  case (ItemsJson its)
  let ?e = "d\<lparr>items := its, totalAmount := body_totalAmount, notes := body_notes\<rparr>"
  let ?e' = "case req_files of
               Some files \<Rightarrow>
                 if length files > 0 then ?e\<lparr>images := images ?e @ map stored_file files\<rparr> else ?e
             | None \<Rightarrow> ?e"
  have "items ?e' = its" "totalAmount ?e' = body_totalAmount"
    by (simp_all split: option.splits)
  with assms(2) ItemsJson have "validate_expense ?e' \<noteq> []"
    by (simp only: validate_expense_Nil) blast
  then have "save_existing validate_expense ?e' expenses
               = Inl (ValidationError (validate_expense ?e'))"
    by (rule save_existing_invalid)
  with assms(1) ItemsJson show ?thesis
    by (simp add: put_expense_def JSON_parse_def Let_def)
qed

section \<open>Invariants of the collections\<close>

text \<open>
  The handlers keep usernames unique among the users and, given fresh ids for new
  documents, ids unique within each collection.
\<close>

lemma map_doc_id_replace_by_id: "map doc_id (replace_by_id d xs) = map doc_id xs"
  by (induction xs) simp_all

lemma map_replace_by_id_found:
  "findOne (\<lambda>x. doc_id x = doc_id d') xs = Some d \<Longrightarrow> f d' = f d \<Longrightarrow>
   map f (replace_by_id d' xs) = map f xs"
  by (induction xs) (auto simp: findOne_def split: if_splits)

lemma set_findOneAndDelete: "set (snd (findOneAndDelete P xs)) \<subseteq> set xs"
  by (induction xs) (auto split: prod.splits)

lemma distinct_findOneAndDelete:
  "distinct (map f xs) \<Longrightarrow> distinct (map f (snd (findOneAndDelete P xs)))"
proof (induction xs)
  case Nil
  then show ?case by simp
next
  case (Cons x xs)
  show ?case
  proof (cases "P x")
    case True
    with Cons.prems show ?thesis by simp
  next
    case False
    from Cons have "distinct (map f (snd (findOneAndDelete P xs)))" by simp
    moreover from Cons.prems set_findOneAndDelete [of P xs]
    have "f x \<notin> f ` set (snd (findOneAndDelete P xs))" by auto
    ultimately show ?thesis using False
      by (cases "findOneAndDelete P xs") simp
  qed
qed

lemma register_keeps_usernames_distinct:
  assumes "distinct (map username users)"
  shows "distinct (map username (fst (post_create_first_user new_id salt users uname pw)))"
proof (cases "findOne (\<lambda>u. username u = uname) users")
  case None
  then have "uname \<notin> username ` set users" by (simp add: findOne_username_None)
  with None assms show ?thesis
    by (simp add: post_create_first_user_def user_save_new_def pre_save_def bcrypt_hash_def)
next
  case (Some u)
  with assms show ?thesis by (simp add: post_create_first_user_def)
qed

lemma change_password_keeps_usernames:
  "map username (fst (post_change_password salt users req_user currentPassword newPassword))
     = map username users"
proof (cases req_user)
  case None
  then show ?thesis by (simp add: post_change_password_def)
next
  case (Some uid)
  show ?thesis
  proof (cases "findOne (\<lambda>u. doc_id u = uid) users")
    case None
    with Some show ?thesis by (simp add: post_change_password_def)
  next
    case found: (Some u)
    then have "doc_id u = uid" by (auto dest: findOne_SomeD)
    with found
    have "map username (replace_by_id (u\<lparr>password := bcrypt_hash salt newPassword\<rparr>) users)
            = map username users"
      by (intro map_replace_by_id_found [where d = u]) simp_all
    with Some found show ?thesis
      by (simp add: post_change_password_def user_save_existing_def pre_save_def)
  qed
qed

lemma post_incomes_keeps_ids_distinct:
  assumes "distinct (map doc_id incomes)" and "new_id \<notin> doc_id ` set incomes"
  shows "distinct (map doc_id (fst (post_incomes new_id now incomes uid body_amount body_notes req_file)))"
  using assms by (auto simp: post_incomes_def Let_def save_new_def split: list.splits)

lemma post_expenses_keeps_ids_distinct:
  assumes "distinct (map doc_id expenses)" and "new_id \<notin> doc_id ` set expenses"
  shows "distinct (map doc_id (fst (post_expenses new_id now expenses uid body_items
           body_totalAmount body_notes req_files)))"
  using assms
  by (auto simp: post_expenses_def Let_def save_new_def split: list.splits sum.splits)

lemma put_income_keeps_ids:
  "map doc_id (fst (put_income incomes uid p body_amount body_notes req_file)) = map doc_id incomes"
  by (cases p) (auto simp: put_income_def Let_def save_existing_def map_doc_id_replace_by_id
      split: option.splits list.splits)

lemma put_expense_keeps_ids:
  "map doc_id (fst (put_expense expenses uid p body_items body_totalAmount body_notes req_files))
     = map doc_id expenses"
  by (cases p) (auto simp: put_expense_def Let_def save_existing_def map_doc_id_replace_by_id
      split: option.splits list.splits sum.splits)

lemma delete_income_keeps_ids_distinct:
  assumes "distinct (map doc_id incomes)"
  shows "distinct (map doc_id (fst (delete_income incomes uid p)))"
proof (cases p)
  case NotObjectId
  with assms show ?thesis by (simp add: delete_income_def)
next
  case (ObjectId i)
  with assms distinct_findOneAndDelete [of doc_id incomes "\<lambda>d. doc_id d = i \<and> createdBy d = uid"]
  show ?thesis by (auto simp: delete_income_def split: prod.splits option.splits)
qed

lemma delete_expense_keeps_ids_distinct:
  assumes "distinct (map doc_id expenses)"
  shows "distinct (map doc_id (fst (delete_expense expenses uid p)))"
proof (cases p)
  case NotObjectId
  with assms show ?thesis by (simp add: delete_expense_def)
next
  case (ObjectId i)
  with assms distinct_findOneAndDelete [of doc_id expenses "\<lambda>d. doc_id d = i \<and> createdBy d = uid"]
  show ?thesis by (auto simp: delete_expense_def split: prod.splits option.splits)
qed

section \<open>Ownership-folded lookup\<close>

lemma get_income_not_owned:
  "(\<forall>d\<in>set incomes. doc_id d = i \<longrightarrow> createdBy d \<noteq> uid) \<longrightarrow>
   get_income_by_id incomes uid (ObjectId i)
     = Response 404 (Message ''Income record not found'')"
  by (simp add: get_income_by_id_def findOne_owned_None)

lemma get_income_malformed:
  "get_income_by_id incomes uid NotObjectId
     = Response 500 (ErrorMessage CastError)"
  by (simp add: get_income_by_id_def)

lemma get_income_success:
  "status (get_income_by_id incomes uid p) = 200 \<longrightarrow>
   (\<exists>i. p = ObjectId i \<and>
      (\<exists>d\<in>set incomes. doc_id d = i \<and> createdBy d = uid \<and>
         get_income_by_id incomes uid p = Response 200 (IncomeBody d)))"
  by (cases p) (auto simp: get_income_by_id_def split: option.splits dest: findOne_SomeD)

lemma put_income_not_owned:
  "(\<forall>d\<in>set incomes. doc_id d = i \<longrightarrow> createdBy d \<noteq> uid) \<longrightarrow>
   put_income incomes uid (ObjectId i) body_amount body_notes req_file
     = (incomes, Response 404 (Message ''Income record not found''))"
  by (simp add: put_income_def findOne_owned_None)

lemma put_income_malformed:
  "put_income incomes uid NotObjectId body_amount body_notes req_file
     = (incomes, Response 400 (ErrorMessage CastError))"
  by (simp add: put_income_def)

lemma put_income_success:
  "status (snd (put_income incomes uid p body_amount body_notes req_file)) = 200 \<longrightarrow>
   (\<exists>i. p = ObjectId i \<and> (\<exists>d\<in>set incomes. doc_id d = i \<and> createdBy d = uid))"
  by (cases p) (auto simp: put_income_def split: option.splits dest: findOne_SomeD)

lemma delete_income_not_owned:
  "(\<forall>d\<in>set incomes. doc_id d = i \<longrightarrow> createdBy d \<noteq> uid) \<longrightarrow>
   delete_income incomes uid (ObjectId i)
     = (incomes, Response 404 (Message ''Income record not found''))"
  by (simp add: delete_income_def findOne_owned_None findOneAndDelete_None)

lemma delete_income_malformed:
  "delete_income incomes uid NotObjectId
     = (incomes, Response 500 (ErrorMessage CastError))"
  by (simp add: delete_income_def)

lemma delete_income_success:
  "status (snd (delete_income incomes uid p)) = 200 \<longrightarrow>
   (\<exists>i. p = ObjectId i \<and> (\<exists>d\<in>set incomes. doc_id d = i \<and> createdBy d = uid))"
  by (cases p)
    (auto simp: delete_income_def split: option.splits prod.splits dest: findOneAndDelete_SomeD)

lemma get_expense_not_owned:
  "(\<forall>d\<in>set expenses. doc_id d = j \<longrightarrow> createdBy d \<noteq> uid) \<longrightarrow>
   get_expense_by_id expenses uid (ObjectId j)
     = Response 404 (Message ''Expense not found'')"
  by (simp add: get_expense_by_id_def findOne_owned_None)

lemma get_expense_malformed:
  "get_expense_by_id expenses uid NotObjectId
     = Response 500 (ErrorMessage CastError)"
  by (simp add: get_expense_by_id_def)

lemma get_expense_success:
  "status (get_expense_by_id expenses uid q) = 200 \<longrightarrow>
   (\<exists>j. q = ObjectId j \<and>
      (\<exists>d\<in>set expenses. doc_id d = j \<and> createdBy d = uid \<and>
         get_expense_by_id expenses uid q = Response 200 (ExpenseBody d)))"
  by (cases q) (auto simp: get_expense_by_id_def split: option.splits dest: findOne_SomeD)

lemma put_expense_not_owned:
  "(\<forall>d\<in>set expenses. doc_id d = j \<longrightarrow> createdBy d \<noteq> uid) \<longrightarrow>
   put_expense expenses uid (ObjectId j) body_items body_totalAmount body_notes' req_files
     = (expenses, Response 404 (Message ''Expense not found''))"
  by (simp add: put_expense_def findOne_owned_None)

lemma put_expense_malformed:
  "put_expense expenses uid NotObjectId body_items body_totalAmount body_notes' req_files
     = (expenses, Response 400 (ErrorMessage CastError))"
  by (simp add: put_expense_def)

lemma put_expense_success:
  "status (snd (put_expense expenses uid q body_items body_totalAmount body_notes' req_files)) = 200 \<longrightarrow>
   (\<exists>j. q = ObjectId j \<and> (\<exists>d\<in>set expenses. doc_id d = j \<and> createdBy d = uid))"
  by (cases q) (auto simp: put_expense_def split: option.splits dest: findOne_SomeD)

lemma delete_expense_not_owned:
  "(\<forall>d\<in>set expenses. doc_id d = j \<longrightarrow> createdBy d \<noteq> uid) \<longrightarrow>
   delete_expense expenses uid (ObjectId j)
     = (expenses, Response 404 (Message ''Expense not found''))"
  by (simp add: delete_expense_def findOne_owned_None findOneAndDelete_None)

lemma delete_expense_malformed:
  "delete_expense expenses uid NotObjectId
     = (expenses, Response 500 (ErrorMessage CastError))"
  by (simp add: delete_expense_def)

lemma delete_expense_success:
  "status (snd (delete_expense expenses uid q)) = 200 \<longrightarrow>
   (\<exists>j. q = ObjectId j \<and> (\<exists>d\<in>set expenses. doc_id d = j \<and> createdBy d = uid))"
  by (cases q)
    (auto simp: delete_expense_def split: option.splits prod.splits dest: findOneAndDelete_SomeD)

text \<open>
  Claim C1, as amended. Reading by id, updating and deleting an income or an expense
  succeed only when the id in the route is a well-formed ObjectId and the collection
  holds a record with that id whose \<open>createdBy\<close> is the requester's identity. When the
  id is well-formed and no record with it is the requester's (there is none with the id,
  or it belongs to another identity) the response is the one 404 response, whatever the
  payload, and the collection is unchanged: the response is a message, not the record
  and not a 403, and it is the same value in both cases. When the id is not a
  well-formed ObjectId the query throws, and the handler's \<open>catch\<close> answers with
  status 500 (read, delete) or 400 (update) and the message of the cast error, again
  without touching the collection.
\<close>

theorem ownership_folded_lookup:
  "((\<forall>d\<in>set incomes. doc_id d = i \<longrightarrow> createdBy d \<noteq> uid) \<longrightarrow>
      get_income_by_id incomes uid (ObjectId i)
        = Response 404 (Message ''Income record not found'')) \<and>
   ((\<forall>d\<in>set incomes. doc_id d = i \<longrightarrow> createdBy d \<noteq> uid) \<longrightarrow>
      put_income incomes uid (ObjectId i) body_amount body_notes req_file
        = (incomes, Response 404 (Message ''Income record not found''))) \<and>
   ((\<forall>d\<in>set incomes. doc_id d = i \<longrightarrow> createdBy d \<noteq> uid) \<longrightarrow>
      delete_income incomes uid (ObjectId i)
        = (incomes, Response 404 (Message ''Income record not found''))) \<and>
   ((\<forall>d\<in>set expenses. doc_id d = j \<longrightarrow> createdBy d \<noteq> uid) \<longrightarrow>
      get_expense_by_id expenses uid (ObjectId j)
        = Response 404 (Message ''Expense not found'')) \<and>
   ((\<forall>d\<in>set expenses. doc_id d = j \<longrightarrow> createdBy d \<noteq> uid) \<longrightarrow>
      put_expense expenses uid (ObjectId j) body_items body_totalAmount body_notes' req_files
        = (expenses, Response 404 (Message ''Expense not found''))) \<and>
   ((\<forall>d\<in>set expenses. doc_id d = j \<longrightarrow> createdBy d \<noteq> uid) \<longrightarrow>
      delete_expense expenses uid (ObjectId j)
        = (expenses, Response 404 (Message ''Expense not found''))) \<and>
   (get_income_by_id incomes uid NotObjectId
        = Response 500 (ErrorMessage CastError)) \<and>
   (put_income incomes uid NotObjectId body_amount body_notes req_file
        = (incomes, Response 400 (ErrorMessage CastError))) \<and>
   (delete_income incomes uid NotObjectId
        = (incomes, Response 500 (ErrorMessage CastError))) \<and>
   (get_expense_by_id expenses uid NotObjectId
        = Response 500 (ErrorMessage CastError)) \<and>
   (put_expense expenses uid NotObjectId body_items body_totalAmount body_notes' req_files
        = (expenses, Response 400 (ErrorMessage CastError))) \<and>
   (delete_expense expenses uid NotObjectId
        = (expenses, Response 500 (ErrorMessage CastError))) \<and>
   (status (get_income_by_id incomes uid p) = 200 \<longrightarrow>
      (\<exists>i. p = ObjectId i \<and>
         (\<exists>d\<in>set incomes. doc_id d = i \<and> createdBy d = uid \<and>
            get_income_by_id incomes uid p = Response 200 (IncomeBody d)))) \<and>
   (status (snd (put_income incomes uid p body_amount body_notes req_file)) = 200 \<longrightarrow>
      (\<exists>i. p = ObjectId i \<and> (\<exists>d\<in>set incomes. doc_id d = i \<and> createdBy d = uid))) \<and>
   (status (snd (delete_income incomes uid p)) = 200 \<longrightarrow>
      (\<exists>i. p = ObjectId i \<and> (\<exists>d\<in>set incomes. doc_id d = i \<and> createdBy d = uid))) \<and>
   (status (get_expense_by_id expenses uid q) = 200 \<longrightarrow>
      (\<exists>j. q = ObjectId j \<and>
         (\<exists>d\<in>set expenses. doc_id d = j \<and> createdBy d = uid \<and>
            get_expense_by_id expenses uid q = Response 200 (ExpenseBody d)))) \<and>
   (status (snd (put_expense expenses uid q body_items body_totalAmount body_notes' req_files)) = 200 \<longrightarrow>
      (\<exists>j. q = ObjectId j \<and> (\<exists>d\<in>set expenses. doc_id d = j \<and> createdBy d = uid))) \<and>
   (status (snd (delete_expense expenses uid q)) = 200 \<longrightarrow>
      (\<exists>j. q = ObjectId j \<and> (\<exists>d\<in>set expenses. doc_id d = j \<and> createdBy d = uid)))"
  by (intro conjI
      get_income_not_owned put_income_not_owned delete_income_not_owned
      get_expense_not_owned put_expense_not_owned delete_expense_not_owned
      get_income_malformed put_income_malformed delete_income_malformed
      get_expense_malformed put_expense_malformed delete_expense_malformed
      get_income_success put_income_success delete_income_success get_expense_success
      put_expense_success delete_expense_success)

text \<open>
  User 1 asks for income 10 and expense 20, which are user 2's, for the ids 11 and 21,
  which nobody has, and for an id that is not an ObjectId; user 2 asks for the same
  records and gets them.
\<close>

theorem ownership_folded_lookup_witness:
  "get_income_by_id [sample_income] 1 (ObjectId 10)
     = Response 404 (Message ''Income record not found'') \<and>
   get_income_by_id [sample_income] 1 (ObjectId 11)
     = Response 404 (Message ''Income record not found'') \<and>
   put_income [sample_income] 1 (ObjectId 10) (Value 1) None None
     = ([sample_income], Response 404 (Message ''Income record not found'')) \<and>
   put_income [sample_income] 1 (ObjectId 11) (Value 1) None None
     = ([sample_income], Response 404 (Message ''Income record not found'')) \<and>
   delete_income [sample_income] 1 (ObjectId 10)
     = ([sample_income], Response 404 (Message ''Income record not found'')) \<and>
   delete_income [sample_income] 1 (ObjectId 11)
     = ([sample_income], Response 404 (Message ''Income record not found'')) \<and>
   get_expense_by_id [sample_expense] 1 (ObjectId 20)
     = Response 404 (Message ''Expense not found'') \<and>
   get_expense_by_id [sample_expense] 1 (ObjectId 21)
     = Response 404 (Message ''Expense not found'') \<and>
   put_expense [sample_expense] 1 (ObjectId 20) (ItemsJson []) (Value 1) None None
     = ([sample_expense], Response 404 (Message ''Expense not found'')) \<and>
   put_expense [sample_expense] 1 (ObjectId 21) (ItemsJson []) (Value 1) None None
     = ([sample_expense], Response 404 (Message ''Expense not found'')) \<and>
   delete_expense [sample_expense] 1 (ObjectId 20)
     = ([sample_expense], Response 404 (Message ''Expense not found'')) \<and>
   delete_expense [sample_expense] 1 (ObjectId 21)
     = ([sample_expense], Response 404 (Message ''Expense not found'')) \<and>
   get_income_by_id [sample_income] 1 NotObjectId = Response 500 (ErrorMessage CastError) \<and>
   put_income [sample_income] 1 NotObjectId (Value 1) None None
     = ([sample_income], Response 400 (ErrorMessage CastError)) \<and>
   delete_income [sample_income] 1 NotObjectId
     = ([sample_income], Response 500 (ErrorMessage CastError)) \<and>
   get_expense_by_id [sample_expense] 1 NotObjectId = Response 500 (ErrorMessage CastError) \<and>
   put_expense [sample_expense] 1 NotObjectId (ItemsJson []) (Value 1) None None
     = ([sample_expense], Response 400 (ErrorMessage CastError)) \<and>
   delete_expense [sample_expense] 1 NotObjectId
     = ([sample_expense], Response 500 (ErrorMessage CastError)) \<and>
   get_income_by_id [sample_income] 2 (ObjectId 10) = Response 200 (IncomeBody sample_income) \<and>
   get_expense_by_id [sample_expense] 2 (ObjectId 20)
     = Response 200 (ExpenseBody sample_expense) \<and>
   status (snd (put_income [sample_income] 2 (ObjectId 10) (Value 1) None None)) = 200 \<and>
   status (snd (delete_income [sample_income] 2 (ObjectId 10))) = 200 \<and>
   status (snd (put_expense [sample_expense] 2 (ObjectId 20) (ItemsJson []) (Value 1) None None))
     = 200 \<and>
   status (snd (delete_expense [sample_expense] 2 (ObjectId 20))) = 200"
  using
    ownership_folded_lookup [where incomes = "[sample_income]" and i = 10 and uid = 1
      and expenses = "[sample_expense]" and j = 20 and body_amount = "Value 1"
      and body_notes = None and req_file = None and body_items = "ItemsJson []"
      and body_totalAmount = "Value 1" and body_notes' = None and req_files = None
      and p = "ObjectId 10" and q = "ObjectId 20"]
    ownership_folded_lookup [where incomes = "[sample_income]" and i = 11 and uid = 1
      and expenses = "[sample_expense]" and j = 21 and body_amount = "Value 1"
      and body_notes = None and req_file = None and body_items = "ItemsJson []"
      and body_totalAmount = "Value 1" and body_notes' = None and req_files = None
      and p = "ObjectId 11" and q = "ObjectId 21"]
    ownership_folded_lookup [where incomes = "[sample_income]" and i = 10 and uid = 2
      and expenses = "[sample_expense]" and j = 20 and body_amount = "Value 1"
      and body_notes = None and req_file = None and body_items = "ItemsJson []"
      and body_totalAmount = "Value 1" and body_notes' = None and req_files = None
      and p = "ObjectId 10" and q = "ObjectId 20"]
  by (simp add: get_income_by_id_def get_expense_by_id_def put_income_def put_expense_def
      delete_income_def delete_expense_def findOne_def JSON_parse_def save_existing_def
      validate_income_def validate_expense_def check_number_def Let_def)

text \<open>
  The claim as stated fails: no record has an id that is not an ObjectId, yet a request
  for such an id is not answered with 404.
\<close>

theorem malformed_id_not_404_counterexample:
  "get_income_by_id [sample_income] 1 NotObjectId = Response 500 (ErrorMessage CastError) \<and>
   put_income [sample_income] 1 NotObjectId (Value 1) None None
     = ([sample_income], Response 400 (ErrorMessage CastError)) \<and>
   delete_income [sample_income] 1 NotObjectId
     = ([sample_income], Response 500 (ErrorMessage CastError)) \<and>
   get_expense_by_id [sample_expense] 1 NotObjectId = Response 500 (ErrorMessage CastError) \<and>
   put_expense [sample_expense] 1 NotObjectId (ItemsJson []) (Value 1) None None
     = ([sample_expense], Response 400 (ErrorMessage CastError)) \<and>
   delete_expense [sample_expense] 1 NotObjectId
     = ([sample_expense], Response 500 (ErrorMessage CastError))"
  by (simp add: get_income_by_id_def get_expense_by_id_def put_income_def put_expense_def
      delete_income_def delete_expense_def)

section \<open>Login failures\<close>

text \<open>
  Claim C2. A login fails with the same response, status 401 and the message
  \<open>Invalid credentials\<close>, whether no user has the username or the user found has a
  stored hash that the supplied password does not match: the response does not tell
  the two causes apart.
\<close>

theorem login_failure_indistinguishable:
  assumes "uname \<notin> username ` set users \<or>
           (\<exists>u. findOne (\<lambda>u. username u = uname) users = Some u \<and>
                \<not> bcrypt_compare pw (password u))"
  shows "post_login JWT_SECRET now users uname pw = Response 401 (Message ''Invalid credentials'')"
  using assms
proof
  assume "uname \<notin> username ` set users"
  then have "findOne (\<lambda>u. username u = uname) users = None"
    by (simp add: findOne_username_None)
  then show ?thesis by (simp add: post_login_def)
next
  assume "\<exists>u. findOne (\<lambda>u. username u = uname) users = Some u \<and>
              \<not> bcrypt_compare pw (password u)"
  then show ?thesis by (auto simp: post_login_def)
qed

theorem login_failure_indistinguishable_witness:
  "post_login (Some ''k'') 100
     [\<lparr>doc_id = 1, username = ''alice'', password = bcrypt_hash 7 ''secret''\<rparr>]
     ''bob'' ''secret'' = Response 401 (Message ''Invalid credentials'') \<and>
   post_login (Some ''k'') 100
     [\<lparr>doc_id = 1, username = ''alice'', password = bcrypt_hash 7 ''secret''\<rparr>]
     ''alice'' ''guess'' = Response 401 (Message ''Invalid credentials'')"
proof
  show "post_login (Some ''k'') 100
     [\<lparr>doc_id = 1, username = ''alice'', password = bcrypt_hash 7 ''secret''\<rparr>]
     ''bob'' ''secret'' = Response 401 (Message ''Invalid credentials'')"
    by (rule login_failure_indistinguishable) simp
  show "post_login (Some ''k'') 100
     [\<lparr>doc_id = 1, username = ''alice'', password = bcrypt_hash 7 ''secret''\<rparr>]
     ''alice'' ''guess'' = Response 401 (Message ''Invalid credentials'')"
    by (rule login_failure_indistinguishable) (simp add: findOne_def bcrypt_mismatch_hd)
qed

section \<open>Registration\<close>

text \<open>
  Claim C7. Registration fails with the conflict response (\<open>User already exists\<close>)
  when some user already has exactly this username, and then the collection of users is
  what it was: no user is added and none is changed. When no user has the username,
  registration succeeds and adds the new user.
\<close>

theorem register_conflict:
  "(uname \<in> username ` set users \<longrightarrow>
      post_create_first_user new_id salt users uname pw
        = (users, Response 400 (Message ''User already exists''))) \<and>
   (uname \<notin> username ` set users \<longrightarrow>
      post_create_first_user new_id salt users uname pw
        = (users @ [\<lparr>doc_id = new_id, username = uname, password = bcrypt_hash salt pw\<rparr>],
           Response 201 (Message ''User created successfully'')))"
proof (intro conjI impI)
  assume "uname \<in> username ` set users"
  then have "findOne (\<lambda>u. username u = uname) users \<noteq> None"
    by (simp add: findOne_username_None)
  then show "post_create_first_user new_id salt users uname pw
        = (users, Response 400 (Message ''User already exists''))"
    by (auto simp: post_create_first_user_def)
next
  assume "uname \<notin> username ` set users"
  then have "findOne (\<lambda>u. username u = uname) users = None"
    by (simp add: findOne_username_None)
  then show "post_create_first_user new_id salt users uname pw
        = (users @ [\<lparr>doc_id = new_id, username = uname, password = bcrypt_hash salt pw\<rparr>],
           Response 201 (Message ''User created successfully''))"
    by (simp add: post_create_first_user_def user_save_new_def pre_save_def)
qed

text \<open>The match is exact: \<open>Alice\<close> is free while \<open>alice\<close> is taken.\<close>

theorem register_conflict_witness:
  "post_create_first_user 2 9 [\<lparr>doc_id = 1, username = ''alice'', password = bcrypt_hash 7 ''secret''\<rparr>]
     ''alice'' ''other''
     = ([\<lparr>doc_id = 1, username = ''alice'', password = bcrypt_hash 7 ''secret''\<rparr>],
        Response 400 (Message ''User already exists'')) \<and>
   post_create_first_user 2 9 [\<lparr>doc_id = 1, username = ''alice'', password = bcrypt_hash 7 ''secret''\<rparr>]
     ''Alice'' ''other''
     = ([\<lparr>doc_id = 1, username = ''alice'', password = bcrypt_hash 7 ''secret''\<rparr>,
         \<lparr>doc_id = 2, username = ''Alice'', password = bcrypt_hash 9 ''other''\<rparr>],
        Response 201 (Message ''User created successfully''))"
  using register_conflict [of "''alice''"
          "[\<lparr>doc_id = 1, username = ''alice'', password = bcrypt_hash 7 ''secret''\<rparr>]" 2 9 "''other''"]
        register_conflict [of "''Alice''"
          "[\<lparr>doc_id = 1, username = ''alice'', password = bcrypt_hash 7 ''secret''\<rparr>]" 2 9 "''other''"]
  by simp

section \<open>Registration followed by login\<close>

text \<open>
  Claim C5, as amended. For every username that no user has yet and every password,
  registration succeeds and adds one user; what it stores as the credential is the
  salted hash of the password, which is one-way (no password text can be read off it),
  and not the raw password. When the server's signing secret is set and not empty, a
  login with the same username and password then succeeds with a token whose
  \<open>userId\<close> is the id of the user that registration created. When the secret is not
  set or is empty, the signing throws and that login is answered with status 500.
\<close>

theorem register_then_login:
  assumes "uname \<notin> username ` set users"
  shows "\<exists>u. post_create_first_user new_id salt users uname pw
               = (users @ [u], Response 201 (Message ''User created successfully'')) \<and>
             doc_id u = new_id \<and> username u = uname \<and>
             password u = bcrypt_hash salt pw \<and> disclosed (password u) = None \<and>
             (\<forall>r. password u \<noteq> Raw r) \<and>
             ((\<exists>k. JWT_SECRET = Some k \<and> k \<noteq> []) \<longrightarrow>
                (\<exists>t. post_login JWT_SECRET now (users @ [u]) uname pw
                        = Response 200 (TokenBody t) \<and>
                     userId t = doc_id u)) \<and>
             (JWT_SECRET = None \<or> JWT_SECRET = Some [] \<longrightarrow>
                post_login JWT_SECRET now (users @ [u]) uname pw
                  = Response 500 (ErrorMessage SecretMissing))"
proof -
  let ?u = "\<lparr>doc_id = new_id, username = uname, password = bcrypt_hash salt pw\<rparr>"
  from assms have none: "findOne (\<lambda>u. username u = uname) users = None"
    by (simp add: findOne_username_None)
  then have reg: "post_create_first_user new_id salt users uname pw
               = (users @ [?u], Response 201 (Message ''User created successfully''))"
    by (simp add: post_create_first_user_def user_save_new_def pre_save_def)
  from none have found: "findOne (\<lambda>u. username u = uname) (users @ [?u]) = Some ?u"
    by (simp add: findOne_append) (simp add: findOne_def)
  have ok: "(\<exists>k. JWT_SECRET = Some k \<and> k \<noteq> []) \<longrightarrow>
              (\<exists>t. post_login JWT_SECRET now (users @ [?u]) uname pw
                      = Response 200 (TokenBody t) \<and>
                   userId t = doc_id ?u)"
    using found by (auto simp: post_login_def jwt_sign_def bcrypt_compare_hash)
  have bad: "JWT_SECRET = None \<or> JWT_SECRET = Some [] \<longrightarrow>
               post_login JWT_SECRET now (users @ [?u]) uname pw
                 = Response 500 (ErrorMessage SecretMissing)"
    using found by (auto simp: post_login_def jwt_sign_def bcrypt_compare_hash)
  have hash: "disclosed (password ?u) = None" "\<forall>r. password ?u \<noteq> Raw r"
    by (simp_all add: bcrypt_hash_def)
  show ?thesis
    using reg ok bad hash by (intro exI [of _ ?u]) simp
qed

theorem register_then_login_witness:
  "\<exists>u. post_create_first_user 3 9 sample_users ''carol'' ''pa55word''
          = (sample_users @ [u], Response 201 (Message ''User created successfully'')) \<and>
        doc_id u = 3 \<and> username u = ''carol'' \<and>
        password u = bcrypt_hash 9 ''pa55word'' \<and> disclosed (password u) = None \<and>
        (\<forall>r. password u \<noteq> Raw r) \<and>
        (\<exists>t. post_login (Some ''k'') 100 (sample_users @ [u]) ''carol'' ''pa55word''
                = Response 200 (TokenBody t) \<and>
             userId t = doc_id u)"
proof -
  have h: "''carol'' \<notin> username ` set sample_users" by simp
  from register_then_login [OF h, of 3 9 "''pa55word''" "Some ''k''" 100]
  show ?thesis by simp
qed

text \<open>
  The claim as stated fails on a server whose signing secret is not set: registration
  succeeds, and the login with the same credentials is answered with status 500.
\<close>

theorem login_without_secret_counterexample:
  "post_create_first_user 3 9 sample_users ''carol'' ''pa55word''
     = (sample_users @ [\<lparr>doc_id = 3, username = ''carol'',
                          password = bcrypt_hash 9 ''pa55word''\<rparr>],
        Response 201 (Message ''User created successfully'')) \<and>
   post_login None 100
     (sample_users @ [\<lparr>doc_id = 3, username = ''carol'', password = bcrypt_hash 9 ''pa55word''\<rparr>])
     ''carol'' ''pa55word'' = Response 500 (ErrorMessage SecretMissing)"
  by (simp add: post_create_first_user_def post_login_def findOne_def user_save_new_def
      pre_save_def jwt_sign_def bcrypt_compare_hash)

section \<open>Changing the password\<close>

text \<open>
  What the handler does once a guard has put a resolved identity \<open>uid\<close> on the request
  (usernames being unique): it answers 404 and changes nothing when no user has the id;
  it answers 401 and changes nothing when the current password does not match the
  stored hash; otherwise it stores the salted hash of the new password in place of the
  old hash, after which the new password passes the login's check and a password with
  another key does not.
\<close>

lemma change_password_with_identity:
  assumes "distinct (map username users)"
  shows "(uid \<notin> doc_id ` set users \<longrightarrow>
            post_change_password salt users (Some uid) currentPassword newPassword
              = (users, Response 404 (Message ''User not found''))) \<and>
         (\<forall>u. findOne (\<lambda>u. doc_id u = uid) users = Some u \<and>
               \<not> bcrypt_compare currentPassword (password u) \<longrightarrow>
            post_change_password salt users (Some uid) currentPassword newPassword
              = (users, Response 401 (Message ''Current password is incorrect''))) \<and>
         (\<forall>u. findOne (\<lambda>u. doc_id u = uid) users = Some u \<and>
               bcrypt_compare currentPassword (password u) \<longrightarrow>
            (\<exists>users'. post_change_password salt users (Some uid) currentPassword newPassword
                         = (users', Response 200 (Message ''Password changed successfully'')) \<and>
               findOne (\<lambda>u. doc_id u = uid) users'
                 = Some (u\<lparr>password := bcrypt_hash salt newPassword\<rparr>) \<and>
               findOne (\<lambda>x. username x = username u) users'
                 = Some (u\<lparr>password := bcrypt_hash salt newPassword\<rparr>) \<and>
               (\<forall>q. bcrypt_key q \<noteq> bcrypt_key newPassword \<longrightarrow>
                  post_login JWT_SECRET now users' (username u) q
                    = Response 401 (Message ''Invalid credentials''))))"
proof (intro conjI allI impI)
  assume "uid \<notin> doc_id ` set users"
  then have "findOne (\<lambda>u. doc_id u = uid) users = None"
    by (auto simp: findOne_None_iff)
  then show "post_change_password salt users (Some uid) currentPassword newPassword
              = (users, Response 404 (Message ''User not found''))"
    by (simp add: post_change_password_def)
next
  fix u
  assume "findOne (\<lambda>u. doc_id u = uid) users = Some u \<and>
               \<not> bcrypt_compare currentPassword (password u)"
  then show "post_change_password salt users (Some uid) currentPassword newPassword
              = (users, Response 401 (Message ''Current password is incorrect''))"
    by (simp add: post_change_password_def)
next
  fix u
  assume a: "findOne (\<lambda>u. doc_id u = uid) users = Some u \<and>
               bcrypt_compare currentPassword (password u)"
  let ?d = "u\<lparr>password := bcrypt_hash salt newPassword\<rparr>"
  let ?users' = "replace_by_id ?d users"
  from a have uid: "doc_id u = uid" by (auto dest: findOne_SomeD)
  have d: "pre_save salt (u\<lparr>password := Raw newPassword\<rparr>) = ?d"
    by (simp add: pre_save_def)
  from a have res: "post_change_password salt users (Some uid) currentPassword newPassword
                 = (?users', Response 200 (Message ''Password changed successfully''))"
    by (simp add: post_change_password_def user_save_existing_def d)
  from a uid have byid: "findOne (\<lambda>x. doc_id x = doc_id ?d) users = Some u" by simp
  then have f1: "findOne (\<lambda>u. doc_id u = uid) ?users' = Some ?d"
    using findOne_replace_by_id [of ?d users u] uid by simp
  have f2: "findOne (\<lambda>x. username x = username u) ?users' = Some ?d"
    using findOne_username_replace_by_id [OF byid _ assms] by simp
  have l2: "\<forall>q. bcrypt_key q \<noteq> bcrypt_key newPassword \<longrightarrow>
                  post_login JWT_SECRET now ?users' (username u) q
                    = Response 401 (Message ''Invalid credentials'')"
    using f2 by (simp add: post_login_def bcrypt_compare_hash_iff)
  show "\<exists>users'. post_change_password salt users (Some uid) currentPassword newPassword
                         = (users', Response 200 (Message ''Password changed successfully'')) \<and>
               findOne (\<lambda>u. doc_id u = uid) users' = Some ?d \<and>
               findOne (\<lambda>x. username x = username u) users' = Some ?d \<and>
               (\<forall>q. bcrypt_key q \<noteq> bcrypt_key newPassword \<longrightarrow>
                  post_login JWT_SECRET now users' (username u) q
                    = Response 401 (Message ''Invalid credentials''))"
    using res f1 f2 l2 by (intro exI [of _ ?users']) simp
qed

text \<open>
  Without a resolved identity on the request the handler cannot read \<open>req.user.userId\<close>
  and answers 500; so does the route as the application serves it, whatever the request.
\<close>

lemma change_password_without_identity:
  "post_change_password salt users None currentPassword newPassword
     = (users, Response 500 (ErrorMessage TypeError))"
  by (simp add: post_change_password_def)

lemma change_password_route_fails:
  "change_password_route salt users authorization currentPassword newPassword
     = (users, Response 500 (ErrorMessage TypeError))"
  by (simp add: change_password_route_def post_change_password_def)

text \<open>
  Claim C4. A change of password with an already-validated token should fail with 404
  when the token's user is unknown, fail with 401 when the current password does not
  match, and otherwise replace the stored hash. The route as the application serves it
  does none of these: the second sample user presents their valid token, their current
  password and a new one, and the answer is status 500 with the users unchanged.
\<close>

theorem change_password_route_unguarded:
  "change_password_route 9 sample_users (Some sample_token) ''hunter2'' ''tr0ub4dor''
     = (sample_users, Response 500 (ErrorMessage TypeError))"
  by (simp add: change_password_route_def post_change_password_def)

section \<open>Validation when an expense is created\<close>

text \<open>
  Claim C3, as amended. An expense create request is accepted exactly when its
  \<open>items\<close> text parses, \<open>totalAmount\<close> is present and numeric, and every element of
  the items has a non-empty description and a numeric amount; the new document is then
  appended and returned with status 201. In every other case the request fails with
  status 400 and the message of the error that was thrown, and nothing is stored. The
  items need not be non-empty: a request with an empty items array and a numeric
  \<open>totalAmount\<close> is accepted.
\<close>

theorem expense_create_validation:
  "((\<exists>its v. body_items = ItemsJson its \<and> body_totalAmount = Value v \<and>
       (\<forall>it\<in>set its. (\<exists>s. description it = Value s \<and> s \<noteq> []) \<and>
                      (\<exists>a. item.amount it = Value a))) \<longrightarrow>
      (\<exists>doc. post_expenses new_id now expenses uid body_items body_totalAmount body_notes req_files
               = (expenses @ [doc], Response 201 (ExpenseBody doc)) \<and>
             body_items = ItemsJson (items doc) \<and> totalAmount doc = body_totalAmount \<and>
             createdBy doc = uid)) \<and>
   (\<not> (\<exists>its v. body_items = ItemsJson its \<and> body_totalAmount = Value v \<and>
       (\<forall>it\<in>set its. (\<exists>s. description it = Value s \<and> s \<noteq> []) \<and>
                      (\<exists>a. item.amount it = Value a))) \<longrightarrow>
      (\<exists>e. post_expenses new_id now expenses uid body_items body_totalAmount body_notes req_files
               = (expenses, Response 400 (ErrorMessage e)) \<and>
           (e = SyntaxError \<or> (\<exists>errs. e = ValidationError errs \<and> errs \<noteq> [])))) \<and>
   (\<exists>doc. post_expenses new_id now expenses uid (ItemsJson []) (Value v0) body_notes req_files
               = (expenses @ [doc], Response 201 (ExpenseBody doc)) \<and> items doc = [])"
proof (intro conjI impI)
  assume "\<exists>its v. body_items = ItemsJson its \<and> body_totalAmount = Value v \<and>
       (\<forall>it\<in>set its. (\<exists>s. description it = Value s \<and> s \<noteq> []) \<and>
                      (\<exists>a. item.amount it = Value a))"
  then obtain its v where its: "body_items = ItemsJson its" and v: "body_totalAmount = Value v"
    and ok: "\<forall>it\<in>set its. (\<exists>s. description it = Value s \<and> s \<noteq> []) \<and>
                          (\<exists>a. item.amount it = Value a)"
    by blast
  let ?doc = "\<lparr>doc_id = new_id, createdBy = uid, createdAt = now, notes = body_notes,
               items = its, totalAmount = body_totalAmount,
               images = (case req_files of Some files \<Rightarrow> map stored_file files | None \<Rightarrow> [])\<rparr>"
  from v ok have "validate_expense ?doc = []"
    by (simp add: validate_expense_Nil)
  then have "post_expenses new_id now expenses uid body_items body_totalAmount body_notes req_files
               = (expenses @ [?doc], Response 201 (ExpenseBody ?doc))"
    using its by (simp add: post_expenses_def JSON_parse_def save_new_valid Let_def)
  then show "\<exists>doc. post_expenses new_id now expenses uid body_items body_totalAmount body_notes req_files
               = (expenses @ [doc], Response 201 (ExpenseBody doc)) \<and>
             body_items = ItemsJson (items doc) \<and> totalAmount doc = body_totalAmount \<and>
             createdBy doc = uid"
    using its by (intro exI [of _ ?doc]) simp
next
  assume bad: "\<not> (\<exists>its v. body_items = ItemsJson its \<and> body_totalAmount = Value v \<and>
       (\<forall>it\<in>set its. (\<exists>s. description it = Value s \<and> s \<noteq> []) \<and>
                      (\<exists>a. item.amount it = Value a)))"
  show "\<exists>e. post_expenses new_id now expenses uid body_items body_totalAmount body_notes req_files
               = (expenses, Response 400 (ErrorMessage e)) \<and>
           (e = SyntaxError \<or> (\<exists>errs. e = ValidationError errs \<and> errs \<noteq> []))"
  proof (cases body_items)
    case ItemsUndefined
    then show ?thesis by (simp add: post_expenses_def JSON_parse_def)
  next
    case ItemsNotJson
    then show ?thesis by (simp add: post_expenses_def JSON_parse_def)
  next
    case (ItemsJson its)
    let ?doc = "\<lparr>doc_id = new_id, createdBy = uid, createdAt = now, notes = body_notes,
               items = its, totalAmount = body_totalAmount,
               images = (case req_files of Some files \<Rightarrow> map stored_file files | None \<Rightarrow> [])\<rparr>"
    from bad ItemsJson have "validate_expense ?doc \<noteq> []"
      by (simp add: validate_expense_Nil) blast
    then show ?thesis
      using ItemsJson by (simp add: post_expenses_def JSON_parse_def save_new_invalid Let_def)
  qed
next
  let ?doc = "\<lparr>doc_id = new_id, createdBy = uid, createdAt = now, notes = body_notes,
               items = [], totalAmount = Value v0,
               images = (case req_files of Some files \<Rightarrow> map stored_file files | None \<Rightarrow> [])\<rparr>"
  have "validate_expense ?doc = []"
    by (simp add: validate_expense_Nil)
  then have "post_expenses new_id now expenses uid (ItemsJson []) (Value v0) body_notes req_files
               = (expenses @ [?doc], Response 201 (ExpenseBody ?doc))"
    by (simp add: post_expenses_def JSON_parse_def save_new_valid Let_def)
  then show "\<exists>doc. post_expenses new_id now expenses uid (ItemsJson []) (Value v0) body_notes req_files
               = (expenses @ [doc], Response 201 (ExpenseBody doc)) \<and> items doc = []"
    by (intro exI [of _ ?doc]) simp
qed

text \<open>
  A valid request is stored; one whose item lacks its amount, and one without
  \<open>totalAmount\<close>, are refused.
\<close>

theorem expense_create_validation_witness:
  "(\<exists>doc. post_expenses 21 7 [sample_expense] 2
            (ItemsJson [\<lparr>description = Value ''tea'', item.amount = Value 2\<rparr>]) (Value 2) None None
            = ([sample_expense] @ [doc], Response 201 (ExpenseBody doc)) \<and>
          ItemsJson [\<lparr>description = Value ''tea'', item.amount = Value 2\<rparr>] = ItemsJson (items doc) \<and>
          totalAmount doc = Value 2 \<and> createdBy doc = 2) \<and>
   (\<exists>e. post_expenses 21 7 [sample_expense] 2
            (ItemsJson [\<lparr>description = Value ''tea'', item.amount = Undefined\<rparr>]) (Value 2) None None
            = ([sample_expense], Response 400 (ErrorMessage e)) \<and>
         (e = SyntaxError \<or> (\<exists>errs. e = ValidationError errs \<and> errs \<noteq> []))) \<and>
   (\<exists>e. post_expenses 21 7 [sample_expense] 2
            (ItemsJson [\<lparr>description = Value ''tea'', item.amount = Value 2\<rparr>]) Undefined None None
            = ([sample_expense], Response 400 (ErrorMessage e)) \<and>
         (e = SyntaxError \<or> (\<exists>errs. e = ValidationError errs \<and> errs \<noteq> [])))"
proof (intro conjI)
  show "\<exists>doc. post_expenses 21 7 [sample_expense] 2
            (ItemsJson [\<lparr>description = Value ''tea'', item.amount = Value 2\<rparr>]) (Value 2) None None
            = ([sample_expense] @ [doc], Response 201 (ExpenseBody doc)) \<and>
          ItemsJson [\<lparr>description = Value ''tea'', item.amount = Value 2\<rparr>] = ItemsJson (items doc) \<and>
          totalAmount doc = Value 2 \<and> createdBy doc = 2"
    by (rule expense_create_validation [THEN conjunct1, THEN mp]) simp
  show "\<exists>e. post_expenses 21 7 [sample_expense] 2
            (ItemsJson [\<lparr>description = Value ''tea'', item.amount = Undefined\<rparr>]) (Value 2) None None
            = ([sample_expense], Response 400 (ErrorMessage e)) \<and>
         (e = SyntaxError \<or> (\<exists>errs. e = ValidationError errs \<and> errs \<noteq> []))"
    by (rule expense_create_validation [THEN conjunct2, THEN conjunct1, THEN mp]) simp
  show "\<exists>e. post_expenses 21 7 [sample_expense] 2
            (ItemsJson [\<lparr>description = Value ''tea'', item.amount = Value 2\<rparr>]) Undefined None None
            = ([sample_expense], Response 400 (ErrorMessage e)) \<and>
         (e = SyntaxError \<or> (\<exists>errs. e = ValidationError errs \<and> errs \<noteq> []))"
    by (rule expense_create_validation [THEN conjunct2, THEN conjunct1, THEN mp]) simp
qed

text \<open>
  The claim as stated fails: a create whose items array is empty is stored and answered
  with 201.
\<close>

theorem expense_create_empty_items_accepted:
  "post_expenses 4 50 [] 1 (ItemsJson []) (Value 3.5) None (Some [])
     = ([\<lparr>doc_id = 4, createdBy = 1, createdAt = 50, notes = None, items = [],
          totalAmount = Value 3.5, images = []\<rparr>],
        Response 201 (ExpenseBody \<lparr>doc_id = 4, createdBy = 1, createdAt = 50, notes = None,
          items = [], totalAmount = Value 3.5, images = []\<rparr>))"
  by (simp add: post_expenses_def JSON_parse_def save_new_def validate_expense_def
      check_number_def Let_def)

section \<open>Creating an expense from unparseable items\<close>

text \<open>
  Claim C9. When the \<open>items\<close> field of an expense create request is absent or is not
  parseable JSON, the request fails with status 400 before anything is saved: the
  collection of expenses is unchanged.
\<close>

theorem post_expenses_unparseable_items:
  assumes "body_items = ItemsUndefined \<or> body_items = ItemsNotJson"
  shows "post_expenses new_id now expenses uid body_items body_totalAmount body_notes req_files
           = (expenses, Response 400 (ErrorMessage SyntaxError))"
  using assms by (auto simp: post_expenses_def JSON_parse_def)

theorem post_expenses_unparseable_items_witness:
  "post_expenses 4 50 [] 1 ItemsNotJson (Value 3) (Some ''lunch'') (Some [])
     = ([], Response 400 (ErrorMessage SyntaxError)) \<and>
   post_expenses 4 50 [] 1 ItemsUndefined (Value 3) None None
     = ([], Response 400 (ErrorMessage SyntaxError))"
  using post_expenses_unparseable_items [of ItemsNotJson 4 50 "[]" 1 "Value 3" "Some ''lunch''" "Some []"]
        post_expenses_unparseable_items [of ItemsUndefined 4 50 "[]" 1 "Value 3" None None]
  by simp

section \<open>Updating a record\<close>

text \<open>
  Claim C6, as amended. Let an update pass the ownership-folded lookup, in a collection
  with unique ids. If the payload is valid (for an income, a numeric amount; for an
  expense, items that parse, a numeric total and items that each have a description and
  a numeric amount), the update succeeds: amount and notes (items, total and notes for an
  expense) are replaced from the payload, an uploaded slip replaces the income's slip,
  uploaded images are appended to the expense's images, and id, \<open>createdBy\<close> and
  \<open>createdAt\<close> stay as they were, in the document returned and in the collection. If
  the payload is not valid, the update fails with status 400 and the collection is
  unchanged.
\<close>

theorem update_effect:
  assumes "distinct (map doc_id incomes)" and "distinct (map doc_id expenses)"
    and "findOne (\<lambda>d. doc_id d = i \<and> createdBy d = uid) incomes = Some d"
    and "findOne (\<lambda>d. doc_id d = j \<and> createdBy d = uid) expenses = Some e"
  shows
   "((\<exists>a. body_amount = Value a) \<longrightarrow>
       (\<exists>d' incomes'. put_income incomes uid (ObjectId i) body_amount body_notes req_file
                        = (incomes', Response 200 (IncomeBody d')) \<and>
          income.amount d' = body_amount \<and> notes d' = body_notes \<and>
          slip d' = (case req_file of Some file \<Rightarrow> Some (stored_file file) | None \<Rightarrow> slip d) \<and>
          createdBy d' = createdBy d \<and> doc_id d' = doc_id d \<and> createdAt d' = createdAt d \<and>
          findOne (\<lambda>d. doc_id d = i \<and> createdBy d = uid) incomes' = Some d' \<and>
          map createdBy incomes' = map createdBy incomes)) \<and>
    ((\<forall>a. body_amount \<noteq> Value a) \<longrightarrow>
       (\<exists>err. put_income incomes uid (ObjectId i) body_amount body_notes req_file
                 = (incomes, Response 400 (ErrorMessage err)))) \<and>
    ((\<exists>its v. body_items = ItemsJson its \<and> body_totalAmount = Value v \<and>
        (\<forall>it\<in>set its. (\<exists>s. description it = Value s \<and> s \<noteq> []) \<and>
                       (\<exists>a. item.amount it = Value a))) \<longrightarrow>
       (\<exists>e' expenses'. put_expense expenses uid (ObjectId j) body_items body_totalAmount body_notes' req_files
                        = (expenses', Response 200 (ExpenseBody e')) \<and>
          body_items = ItemsJson (items e') \<and> totalAmount e' = body_totalAmount \<and>
          notes e' = body_notes' \<and>
          images e' = images e @
            (case req_files of Some files \<Rightarrow> map stored_file files | None \<Rightarrow> []) \<and>
          createdBy e' = createdBy e \<and> doc_id e' = doc_id e \<and> createdAt e' = createdAt e \<and>
          findOne (\<lambda>d. doc_id d = j \<and> createdBy d = uid) expenses' = Some e' \<and>
          map createdBy expenses' = map createdBy expenses)) \<and>
    (\<not> (\<exists>its v. body_items = ItemsJson its \<and> body_totalAmount = Value v \<and>
        (\<forall>it\<in>set its. (\<exists>s. description it = Value s \<and> s \<noteq> []) \<and>
                       (\<exists>a. item.amount it = Value a))) \<longrightarrow>
       (\<exists>err. put_expense expenses uid (ObjectId j) body_items body_totalAmount body_notes' req_files
                 = (expenses, Response 400 (ErrorMessage err))))"
proof (intro conjI impI)
  assume "\<exists>a. body_amount = Value a"
  then obtain a where a: "body_amount = Value a" ..
  let ?d = "d\<lparr>amount := body_amount, notes := body_notes,
             slip := (case req_file of Some file \<Rightarrow> Some (stored_file file) | None \<Rightarrow> slip d)\<rparr>"
  from assms(3) have din: "d \<in> set incomes" by (rule findOne_Some_set)
  have 1: "put_income incomes uid (ObjectId i) body_amount body_notes req_file
             = (replace_by_id ?d incomes, Response 200 (IncomeBody ?d))"
    by (rule put_income_valid [OF assms(3) a])
  have 2: "findOne (\<lambda>d. doc_id d = i \<and> createdBy d = uid) (replace_by_id ?d incomes) = Some ?d"
    by (rule findOne_owned_replace_by_id [OF assms(1) assms(3)]) simp_all
  have 3: "map createdBy (replace_by_id ?d incomes) = map createdBy incomes"
    by (rule map_replace_by_id [OF assms(1) din]) simp_all
  show "\<exists>d' incomes'. put_income incomes uid (ObjectId i) body_amount body_notes req_file
                        = (incomes', Response 200 (IncomeBody d')) \<and>
          income.amount d' = body_amount \<and> notes d' = body_notes \<and>
          slip d' = (case req_file of Some file \<Rightarrow> Some (stored_file file) | None \<Rightarrow> slip d) \<and>
          createdBy d' = createdBy d \<and> doc_id d' = doc_id d \<and> createdAt d' = createdAt d \<and>
          findOne (\<lambda>d. doc_id d = i \<and> createdBy d = uid) incomes' = Some d' \<and>
          map createdBy incomes' = map createdBy incomes"
    using 1 2 3 by (intro exI [of _ ?d] exI [of _ "replace_by_id ?d incomes"]) simp
next
  assume "\<forall>a. body_amount \<noteq> Value a"
  then show "\<exists>err. put_income incomes uid (ObjectId i) body_amount body_notes req_file
                 = (incomes, Response 400 (ErrorMessage err))"
    by (rule put_income_invalid [OF assms(3)])
next
  assume "\<exists>its v. body_items = ItemsJson its \<and> body_totalAmount = Value v \<and>
        (\<forall>it\<in>set its. (\<exists>s. description it = Value s \<and> s \<noteq> []) \<and>
                       (\<exists>a. item.amount it = Value a))"
  then obtain its v where its: "body_items = ItemsJson its" and v: "body_totalAmount = Value v"
    and ok: "\<forall>it\<in>set its. (\<exists>s. description it = Value s \<and> s \<noteq> []) \<and>
                          (\<exists>a. item.amount it = Value a)"
    by blast
  let ?e = "e\<lparr>items := its, totalAmount := body_totalAmount, notes := body_notes',
             images := images e @
               (case req_files of Some files \<Rightarrow> map stored_file files | None \<Rightarrow> [])\<rparr>"
  from assms(4) have ein: "e \<in> set expenses" by (rule findOne_Some_set)
  have 1: "put_expense expenses uid (ObjectId j) body_items body_totalAmount body_notes' req_files
             = (replace_by_id ?e expenses, Response 200 (ExpenseBody ?e))"
    by (rule put_expense_valid [OF assms(4) its v ok])
  have 2: "findOne (\<lambda>d. doc_id d = j \<and> createdBy d = uid) (replace_by_id ?e expenses) = Some ?e"
    by (rule findOne_owned_replace_by_id [OF assms(2) assms(4)]) simp_all
  have 3: "map createdBy (replace_by_id ?e expenses) = map createdBy expenses"
    by (rule map_replace_by_id [OF assms(2) ein]) simp_all
  show "\<exists>e' expenses'. put_expense expenses uid (ObjectId j) body_items body_totalAmount body_notes' req_files
                        = (expenses', Response 200 (ExpenseBody e')) \<and>
          body_items = ItemsJson (items e') \<and> totalAmount e' = body_totalAmount \<and>
          notes e' = body_notes' \<and>
          images e' = images e @
            (case req_files of Some files \<Rightarrow> map stored_file files | None \<Rightarrow> []) \<and>
          createdBy e' = createdBy e \<and> doc_id e' = doc_id e \<and> createdAt e' = createdAt e \<and>
          findOne (\<lambda>d. doc_id d = j \<and> createdBy d = uid) expenses' = Some e' \<and>
          map createdBy expenses' = map createdBy expenses"
    using 1 2 3 its by (intro exI [of _ ?e] exI [of _ "replace_by_id ?e expenses"]) simp
next
  assume "\<not> (\<exists>its v. body_items = ItemsJson its \<and> body_totalAmount = Value v \<and>
        (\<forall>it\<in>set its. (\<exists>s. description it = Value s \<and> s \<noteq> []) \<and>
                       (\<exists>a. item.amount it = Value a)))"
  then show "\<exists>err. put_expense expenses uid (ObjectId j) body_items body_totalAmount body_notes' req_files
                 = (expenses, Response 400 (ErrorMessage err))"
    by (rule put_expense_invalid [OF assms(4)])
qed

text \<open>
  User 2 updates income 10 with a new slip and expense 20 with one more image.
\<close>

theorem update_effect_witness:
  "(\<exists>d' incomes'. put_income [sample_income] 2 (ObjectId 10) (Value 120) (Some ''raise'') (Some sample_file)
                    = (incomes', Response 200 (IncomeBody d')) \<and>
      income.amount d' = Value 120 \<and> notes d' = Some ''raise'' \<and>
      slip d' = Some \<lparr>path = ''uploads/9-new.png'', filename = ''9-new.png''\<rparr> \<and>
      createdBy d' = 2 \<and> doc_id d' = 10 \<and> createdAt d' = 5 \<and>
      findOne (\<lambda>d. doc_id d = 10 \<and> createdBy d = 2) incomes' = Some d' \<and>
      map createdBy incomes' = [2]) \<and>
   (\<exists>err. put_income [sample_income] 2 (ObjectId 10) Uncastable (Some ''raise'') (Some sample_file)
             = ([sample_income], Response 400 (ErrorMessage err))) \<and>
   (\<exists>e' expenses'. put_expense [sample_expense] 2 (ObjectId 20)
                      (ItemsJson [\<lparr>description = Value ''tea'', item.amount = Value 2\<rparr>])
                      (Value 2) None (Some [sample_file])
                    = (expenses', Response 200 (ExpenseBody e')) \<and>
      items e' = [\<lparr>description = Value ''tea'', item.amount = Value 2\<rparr>] \<and>
      totalAmount e' = Value 2 \<and> notes e' = None \<and>
      images e' = [\<lparr>path = ''uploads/6-bill.png'', filename = ''6-bill.png''\<rparr>,
                   \<lparr>path = ''uploads/9-new.png'', filename = ''9-new.png''\<rparr>] \<and>
      createdBy e' = 2 \<and> doc_id e' = 20 \<and> createdAt e' = 6 \<and>
      findOne (\<lambda>d. doc_id d = 20 \<and> createdBy d = 2) expenses' = Some e' \<and>
      map createdBy expenses' = [2]) \<and>
   (\<exists>err. put_expense [sample_expense] 2 (ObjectId 20) ItemsNotJson (Value 2) None (Some [sample_file])
             = ([sample_expense], Response 400 (ErrorMessage err)))"
proof -
  have h1: "distinct (map doc_id [sample_income])" by simp
  have h2: "distinct (map doc_id [sample_expense])" by simp
  have h3: "findOne (\<lambda>d. doc_id d = 10 \<and> createdBy d = 2) [sample_income] = Some sample_income"
    by (simp add: findOne_def)
  have h4: "findOne (\<lambda>d. doc_id d = 20 \<and> createdBy d = 2) [sample_expense] = Some sample_expense"
    by (simp add: findOne_def)
  note t = update_effect [OF h1 h2 h3 h4]
  show ?thesis
    using
      t [where body_amount = "Value 120" and body_notes = "Some ''raise''"
          and req_file = "Some sample_file", THEN conjunct1]
      t [where body_amount = Uncastable and body_notes = "Some ''raise''"
          and req_file = "Some sample_file", THEN conjunct2, THEN conjunct1]
      t [where body_items = "ItemsJson [\<lparr>description = Value ''tea'', item.amount = Value 2\<rparr>]"
          and body_totalAmount = "Value 2" and body_notes' = None
          and req_files = "Some [sample_file]", THEN conjunct2, THEN conjunct2, THEN conjunct1]
      t [where body_items = ItemsNotJson and body_totalAmount = "Value 2" and body_notes' = None
          and req_files = "Some [sample_file]", THEN conjunct2, THEN conjunct2, THEN conjunct2]
    by (simp add: stored_file_def eq_commute [of "[\<lparr>description = Value ''tea'', item.amount = Value 2\<rparr>]"])
qed

text \<open>
  The claim as stated fails: user 2's updates of their own expense 20 and income 10 pass
  the lookup, but the first has items that do not parse and the second has no amount;
  both are refused with status 400 and nothing is replaced or appended.
\<close>

theorem update_invalid_payload_counterexample:
  "findOne (\<lambda>d. doc_id d = 20 \<and> createdBy d = 2) [sample_expense] = Some sample_expense \<and>
   put_expense [sample_expense] 2 (ObjectId 20) ItemsNotJson (Value 9) (Some ''dinner'') (Some [sample_file])
     = ([sample_expense], Response 400 (ErrorMessage SyntaxError)) \<and>
   findOne (\<lambda>d. doc_id d = 10 \<and> createdBy d = 2) [sample_income] = Some sample_income \<and>
   put_income [sample_income] 2 (ObjectId 10) Undefined (Some ''bonus'') None
     = ([sample_income],
        Response 400 (ErrorMessage (ValidationError [(Top ''amount'', Required)])))"
  by (simp add: put_expense_def put_income_def findOne_def JSON_parse_def save_existing_def
      validate_income_def check_number_def)

section \<open>Updating an income without a new slip\<close>

text \<open>
  Claim C10. An income update that uploads no slip file leaves the slip of every stored
  income as it was, whether the update succeeds or not; when it succeeds, the document
  returned carries the amount and the notes of the payload and the slip the record had.
  (Ids are unique in the collection.)
\<close>

theorem put_income_without_file_keeps_slip:
  assumes "distinct (map doc_id incomes)"
  shows "map (\<lambda>d. (doc_id d, slip d)) (fst (put_income incomes uid p body_amount body_notes None))
           = map (\<lambda>d. (doc_id d, slip d)) incomes \<and>
         (\<forall>d'. snd (put_income incomes uid p body_amount body_notes None)
                  = Response 200 (IncomeBody d') \<longrightarrow>
            income.amount d' = body_amount \<and> notes d' = body_notes \<and>
            (\<exists>d\<in>set incomes. p = ObjectId (doc_id d) \<and> createdBy d = uid \<and>
                              doc_id d' = doc_id d \<and> slip d' = slip d))"
proof (cases p)
  case NotObjectId
  then show ?thesis by (simp add: put_income_def)
next
  case (ObjectId i)
  show ?thesis
  proof (cases "findOne (\<lambda>d. doc_id d = i \<and> createdBy d = uid) incomes")
    case None
    with ObjectId show ?thesis by (simp add: put_income_def)
  next
    case (Some d)
    then have d: "d \<in> set incomes" "doc_id d = i" "createdBy d = uid"
      by (auto dest: findOne_SomeD)
    show ?thesis
    proof (cases "\<exists>a. body_amount = Value a")
      case True
      then obtain a where a: "body_amount = Value a" ..
      let ?d = "d\<lparr>amount := body_amount, notes := body_notes\<rparr>"
      have 1: "put_income incomes uid (ObjectId i) body_amount body_notes None
                 = (replace_by_id ?d incomes, Response 200 (IncomeBody ?d))"
        using put_income_valid [OF Some a, of body_notes None] by simp
      have 2: "map (\<lambda>d. (doc_id d, slip d)) (replace_by_id ?d incomes)
                 = map (\<lambda>d. (doc_id d, slip d)) incomes"
        by (rule map_replace_by_id [OF assms d(1)]) simp_all
      from 1 2 d ObjectId show ?thesis by auto
    next
      case False
      then have "\<forall>a. body_amount \<noteq> Value a" by simp
      from put_income_invalid [OF Some this, of body_notes None] ObjectId
      show ?thesis by auto
    qed
  qed
qed

theorem put_income_without_file_keeps_slip_witness:
  "distinct (map doc_id [sample_income]) \<and>
   map (\<lambda>d. (doc_id d, slip d)) (fst (put_income [sample_income] 2 (ObjectId 10) (Value 120) None None))
     = [(10, Some \<lparr>path = ''uploads/5-slip.png'', filename = ''5-slip.png''\<rparr>)] \<and>
   snd (put_income [sample_income] 2 (ObjectId 10) (Value 120) None None)
     = Response 200 (IncomeBody (sample_income\<lparr>amount := Value 120, notes := None\<rparr>)) \<and>
   map (\<lambda>d. (doc_id d, slip d)) (fst (put_income [sample_income] 2 (ObjectId 10) Undefined None None))
     = [(10, Some \<lparr>path = ''uploads/5-slip.png'', filename = ''5-slip.png''\<rparr>)]"
proof -
  have h: "distinct (map doc_id [sample_income])" by simp
  have r: "snd (put_income [sample_income] 2 (ObjectId 10) (Value 120) None None)
     = Response 200 (IncomeBody (sample_income\<lparr>amount := Value 120, notes := None\<rparr>))"
    by (simp add: put_income_def findOne_def save_existing_def validate_income_def
        check_number_def Let_def)
  from h r
    put_income_without_file_keeps_slip [OF h, of 2 "ObjectId 10" "Value 120" None, THEN conjunct1]
    put_income_without_file_keeps_slip [OF h, of 2 "ObjectId 10" Undefined None, THEN conjunct1]
  show ?thesis by simp
qed

section \<open>Listing\<close>

lemma sort_createdAt_desc_sorted:
  "sorted_wrt (\<lambda>a b. createdAt a \<ge> createdAt b) (sort_createdAt_desc xs)"
proof -
  have "sorted (map (\<lambda>d. - int (createdAt d)) (sort_key (\<lambda>d. - int (createdAt d)) xs))"
    by (rule sorted_sort_key)
  then show ?thesis
    by (simp add: sort_createdAt_desc_def sorted_map)
qed

lemma mset_sort_createdAt_desc: "mset (sort_createdAt_desc xs) = mset xs"
  by (simp add: sort_createdAt_desc_def)

lemma sort_createdAt_desc_three:
  assumes "createdAt a < createdAt b" and "createdAt b < createdAt c"
  shows "sort_createdAt_desc [a, b, c] = [c, b, a]"
  using assms by (simp add: sort_createdAt_desc_def)

lemma find_docs_append_three:
  assumes "uid \<notin> createdBy ` set xs"
    and "createdBy a = uid" and "createdBy b = uid" and "createdBy c = uid"
  shows "find_docs (\<lambda>d. createdBy d = uid) (((xs @ [a]) @ [b]) @ [c]) = [a, b, c]"
proof -
  from assms(1) have "filter (\<lambda>d. createdBy d = uid) xs = []"
    by (auto simp: filter_empty_conv)
  with assms(2-) show ?thesis by (simp add: find_docs_def)
qed

lemma post_incomes_created:
  assumes "post_incomes new_id now incomes uid body_amount body_notes req_file
             = (incomes', Response 201 (IncomeBody d))"
  shows "incomes' = incomes @ [d] \<and> createdBy d = uid \<and> createdAt d = now \<and> doc_id d = new_id"
  using assms
  by (auto simp: post_incomes_def Let_def save_new_def split: list.splits)

lemma post_expenses_created:
  assumes "post_expenses new_id now expenses uid body_items body_totalAmount body_notes req_files
             = (expenses', Response 201 (ExpenseBody d))"
  shows "expenses' = expenses @ [d] \<and> createdBy d = uid \<and> createdAt d = now \<and> doc_id d = new_id"
  using assms
  by (auto simp: post_expenses_def Let_def save_new_def split: list.splits sum.splits)

text \<open>
  Claim C8. Listing the incomes, or the expenses, of a user returns exactly the records
  whose \<open>createdBy\<close> is that user, each as often as it is stored, newest first by
  \<open>createdAt\<close>. When a user without records creates three records at increasing times,
  the listing is the three records in the reverse of the order of their creation.
\<close>

theorem list_owned_newest_first:
  "(\<exists>xs. get_incomes incomes uid = Response 200 (IncomeList xs) \<and>
         mset xs = mset (filter (\<lambda>d. createdBy d = uid) incomes) \<and>
         sorted_wrt (\<lambda>a b. createdAt a \<ge> createdAt b) xs) \<and>
   (\<exists>xs. get_expenses expenses uid = Response 200 (ExpenseList xs) \<and>
         mset xs = mset (filter (\<lambda>d. createdBy d = uid) expenses) \<and>
         sorted_wrt (\<lambda>a b. createdAt a \<ge> createdAt b) xs) \<and>
   (uid \<notin> createdBy ` set incomes \<and> t_a < t_b \<and> t_b < t_c \<and>
    post_incomes id_a t_a incomes uid amount_a notes_a file_a
      = (incomes_a, Response 201 (IncomeBody d_a)) \<and>
    post_incomes id_b t_b incomes_a uid amount_b notes_b file_b
      = (incomes_b, Response 201 (IncomeBody d_b)) \<and>
    post_incomes id_c t_c incomes_b uid amount_c notes_c file_c
      = (incomes_c, Response 201 (IncomeBody d_c)) \<longrightarrow>
    get_incomes incomes_c uid = Response 200 (IncomeList [d_c, d_b, d_a])) \<and>
   (uid \<notin> createdBy ` set expenses \<and> t_a < t_b \<and> t_b < t_c \<and>
    post_expenses id_a t_a expenses uid items_a total_a notes_a files_a
      = (expenses_a, Response 201 (ExpenseBody e_a)) \<and>
    post_expenses id_b t_b expenses_a uid items_b total_b notes_b files_b
      = (expenses_b, Response 201 (ExpenseBody e_b)) \<and>
    post_expenses id_c t_c expenses_b uid items_c total_c notes_c files_c
      = (expenses_c, Response 201 (ExpenseBody e_c)) \<longrightarrow>
    get_expenses expenses_c uid = Response 200 (ExpenseList [e_c, e_b, e_a]))"
proof (intro conjI impI)
  show "\<exists>xs. get_incomes incomes uid = Response 200 (IncomeList xs) \<and>
         mset xs = mset (filter (\<lambda>d. createdBy d = uid) incomes) \<and>
         sorted_wrt (\<lambda>a b. createdAt a \<ge> createdAt b) xs"
    by (simp add: get_incomes_def find_docs_def mset_sort_createdAt_desc sort_createdAt_desc_sorted)
  show "\<exists>xs. get_expenses expenses uid = Response 200 (ExpenseList xs) \<and>
         mset xs = mset (filter (\<lambda>d. createdBy d = uid) expenses) \<and>
         sorted_wrt (\<lambda>a b. createdAt a \<ge> createdAt b) xs"
    by (simp add: get_expenses_def find_docs_def mset_sort_createdAt_desc sort_createdAt_desc_sorted)
next
  assume a: "uid \<notin> createdBy ` set incomes \<and> t_a < t_b \<and> t_b < t_c \<and>
    post_incomes id_a t_a incomes uid amount_a notes_a file_a
      = (incomes_a, Response 201 (IncomeBody d_a)) \<and>
    post_incomes id_b t_b incomes_a uid amount_b notes_b file_b
      = (incomes_b, Response 201 (IncomeBody d_b)) \<and>
    post_incomes id_c t_c incomes_b uid amount_c notes_c file_c
      = (incomes_c, Response 201 (IncomeBody d_c))"
  then have p1: "post_incomes id_a t_a incomes uid amount_a notes_a file_a
                    = (incomes_a, Response 201 (IncomeBody d_a))"
    and p2: "post_incomes id_b t_b incomes_a uid amount_b notes_b file_b
               = (incomes_b, Response 201 (IncomeBody d_b))"
    and p3: "post_incomes id_c t_c incomes_b uid amount_c notes_c file_c
               = (incomes_c, Response 201 (IncomeBody d_c))"
    by simp_all
  note c1 = post_incomes_created [OF p1]
  note c2 = post_incomes_created [OF p2]
  note c3 = post_incomes_created [OF p3]
  from c1 c2 c3 have s: "incomes_c = ((incomes @ [d_a]) @ [d_b]) @ [d_c]" by simp
  from a c1 c2 c3 have f: "find_docs (\<lambda>d. createdBy d = uid) incomes_c = [d_a, d_b, d_c]"
    unfolding s by (intro find_docs_append_three) simp_all
  from a c1 c2 c3 have "sort_createdAt_desc [d_a, d_b, d_c] = [d_c, d_b, d_a]"
    by (intro sort_createdAt_desc_three) simp_all
  with f show "get_incomes incomes_c uid = Response 200 (IncomeList [d_c, d_b, d_a])"
    by (simp add: get_incomes_def)
next
  assume a: "uid \<notin> createdBy ` set expenses \<and> t_a < t_b \<and> t_b < t_c \<and>
    post_expenses id_a t_a expenses uid items_a total_a notes_a files_a
      = (expenses_a, Response 201 (ExpenseBody e_a)) \<and>
    post_expenses id_b t_b expenses_a uid items_b total_b notes_b files_b
      = (expenses_b, Response 201 (ExpenseBody e_b)) \<and>
    post_expenses id_c t_c expenses_b uid items_c total_c notes_c files_c
      = (expenses_c, Response 201 (ExpenseBody e_c))"
  then have p1: "post_expenses id_a t_a expenses uid items_a total_a notes_a files_a
                    = (expenses_a, Response 201 (ExpenseBody e_a))"
    and p2: "post_expenses id_b t_b expenses_a uid items_b total_b notes_b files_b
               = (expenses_b, Response 201 (ExpenseBody e_b))"
    and p3: "post_expenses id_c t_c expenses_b uid items_c total_c notes_c files_c
               = (expenses_c, Response 201 (ExpenseBody e_c))"
    by simp_all
  note c1 = post_expenses_created [OF p1]
  note c2 = post_expenses_created [OF p2]
  note c3 = post_expenses_created [OF p3]
  from c1 c2 c3 have s: "expenses_c = ((expenses @ [e_a]) @ [e_b]) @ [e_c]" by simp
  from a c1 c2 c3 have f: "find_docs (\<lambda>d. createdBy d = uid) expenses_c = [e_a, e_b, e_c]"
    unfolding s by (intro find_docs_append_three) simp_all
  from a c1 c2 c3 have "sort_createdAt_desc [e_a, e_b, e_c] = [e_c, e_b, e_a]"
    by (intro sort_createdAt_desc_three) simp_all
  with f show "get_expenses expenses_c uid = Response 200 (ExpenseList [e_c, e_b, e_a])"
    by (simp add: get_expenses_def)
qed

theorem list_owned_newest_first_witness:
  "get_incomes [sample_income, new_income 11 100 5, new_income 12 200 6, new_income 13 300 7] 1
     = Response 200 (IncomeList [new_income 13 300 7, new_income 12 200 6, new_income 11 100 5]) \<and>
   get_expenses [sample_expense, new_expense 21 100 5, new_expense 22 200 6, new_expense 23 300 7] 1
     = Response 200 (ExpenseList [new_expense 23 300 7, new_expense 22 200 6, new_expense 21 100 5])"
proof
  show "get_incomes [sample_income, new_income 11 100 5, new_income 12 200 6, new_income 13 300 7] 1
     = Response 200 (IncomeList [new_income 13 300 7, new_income 12 200 6, new_income 11 100 5])"
    by (rule list_owned_newest_first [where incomes = "[sample_income]" and t_a = 100 and t_b = 200 and t_c = 300
            and id_a = 11 and id_b = 12 and id_c = 13
            and amount_a = "Value 5" and amount_b = "Value 6" and amount_c = "Value 7"
            and notes_a = None and notes_b = None and notes_c = None
            and file_a = None and file_b = None and file_c = None
            and incomes_a = "[sample_income, new_income 11 100 5]"
            and incomes_b = "[sample_income, new_income 11 100 5, new_income 12 200 6]",
          THEN conjunct2, THEN conjunct2, THEN conjunct1, THEN mp])
      (simp add: post_incomes_def save_new_def validate_income_def check_number_def Let_def)
  show "get_expenses [sample_expense, new_expense 21 100 5, new_expense 22 200 6, new_expense 23 300 7] 1
     = Response 200 (ExpenseList [new_expense 23 300 7, new_expense 22 200 6, new_expense 21 100 5])"
    by (rule list_owned_newest_first [where expenses = "[sample_expense]" and t_a = 100 and t_b = 200 and t_c = 300
            and id_a = 21 and id_b = 22 and id_c = 23
            and items_a = "ItemsJson [\<lparr>description = Value ''tea'', item.amount = Value 5\<rparr>]"
            and items_b = "ItemsJson [\<lparr>description = Value ''tea'', item.amount = Value 6\<rparr>]"
            and items_c = "ItemsJson [\<lparr>description = Value ''tea'', item.amount = Value 7\<rparr>]"
            and total_a = "Value 5" and total_b = "Value 6" and total_c = "Value 7"
            and notes_a = None and notes_b = None and notes_c = None
            and files_a = None and files_b = None and files_c = None
            and expenses_a = "[sample_expense, new_expense 21 100 5]"
            and expenses_b = "[sample_expense, new_expense 21 100 5, new_expense 22 200 6]",
          THEN conjunct2, THEN conjunct2, THEN conjunct2, THEN mp])
      (simp add: post_expenses_def JSON_parse_def save_new_def validate_expense_def
         validate_item_def check_string_def check_number_def Let_def)
qed

end
